theory Spec2Isabelle
  imports Main "HOL-Library.Sublist"
begin

section \<open>The configuration core of SARC (\<^verbatim>\<open>sarc/config.py\<close>)\<close>

text \<open>
  A shallow embedding of \<^verbatim>\<open>sarc/config.py\<close>: the configuration records, their validators,
  the path resolver, the loader, the lazily built service handles and the scoped accessor of
  the current configuration.

  Conventions. An exception is a value of \<open>exn\<close> and a function that may raise returns
  \<open>exn + 'a\<close> (\<open>Inl\<close> the exception). Module globals, the context variable and the objects
  that are mutated through a shared reference live in an explicit \<open>state\<close> that is passed
  and returned. Whatever the code takes from its libraries and its surroundings (pathlib,
  the file system, the time-zone database, the readers of auxiliary files) is a field of
  the record \<open>env\<close>, so every theorem below holds for all behaviours of these.
\<close>

subsection \<open>Python strings\<close>

text \<open>\<^verbatim>\<open>sub in s\<close> on strings.\<close>

fun str_contains :: "string \<Rightarrow> string \<Rightarrow> bool" where
  "str_contains sub [] = (sub = [])"
| "str_contains sub (c # cs) = (prefix sub (c # cs) \<or> str_contains sub cs)"

text \<open>
  \<^verbatim>\<open>s.replace(old, new)\<close>: every non-overlapping occurrence, leftmost first. For an empty
  \<open>old\<close> Python puts \<open>new\<close> before every character and at the end.
\<close>

fun str_replace :: "string \<Rightarrow> string \<Rightarrow> string \<Rightarrow> string" where
  "str_replace old new [] = (if old = [] then new else [])"
| "str_replace old new (c # cs) =
     (if old = [] then new @ concat (map (\<lambda>x. x # new) (c # cs))
      else if prefix old (c # cs) then new @ str_replace old new (drop (length old) (c # cs))
      else c # str_replace old new cs)"

text \<open>\<^verbatim>\<open>str(x)\<close> and the truth value of an optional string (\<^verbatim>\<open>None\<close> and \<^verbatim>\<open>""\<close> are falsy).\<close>

definition py_str :: "string option \<Rightarrow> string" where
  "py_str x = (case x of None \<Rightarrow> ''None'' | Some s \<Rightarrow> s)"

definition str_truthy :: "string option \<Rightarrow> bool" where
  "str_truthy x = (case x of None \<Rightarrow> False | Some s \<Rightarrow> s \<noteq> [])"

subsection \<open>Exceptions, paths, object references\<close>

datatype exn =
    ConfigurationError string
  | JSONDecodeError
  | UnicodeDecodeError
  | ValidationError
  | ValueError
  | TypeError
  | AssertionError
  | OSError
  | ZoneInfoNotFoundError
  | RuntimeError
  | Exception string

text \<open>
  The classes that are \<^verbatim>\<open>ValueError\<close>, \<^verbatim>\<open>TypeError\<close> or \<^verbatim>\<open>AssertionError\<close> or derive from one of
  them: what pydantic catches around a validator and records as a validation error of the
  field. \<^verbatim>\<open>json.JSONDecodeError\<close>, \<^verbatim>\<open>UnicodeDecodeError\<close> and pydantic's \<^verbatim>\<open>ValidationError\<close> derive
  from \<^verbatim>\<open>ValueError\<close>; \<^verbatim>\<open>ZoneInfoNotFoundError\<close> derives from \<^verbatim>\<open>KeyError\<close> and is not caught.
\<close>

definition recorded :: "exn \<Rightarrow> bool" where
  "recorded e =
     (e = ValueError \<or> e = TypeError \<or> e = AssertionError
      \<or> e = ValidationError \<or> e = JSONDecodeError \<or> e = UnicodeDecodeError)"

text \<open>
  A \<^verbatim>\<open>pathlib.Path\<close> is kept by its string form. A \<^verbatim>\<open>Path\<close> object is always truthy, so an
  optional path is falsy exactly when it is \<^verbatim>\<open>None\<close>.
\<close>

datatype path = Path string

fun path_str :: "path \<Rightarrow> string" where
  "path_str (Path s) = s"

definition path_truthy :: "path option \<Rightarrow> bool" where
  "path_truthy x = (x \<noteq> None)"

datatype zoneinfo = ZoneInfo string

text \<open>The declared type of \<^verbatim>\<open>ClusterConfig.timezone\<close> is \<^verbatim>\<open>Union[str, zoneinfo.ZoneInfo]\<close>.\<close>

datatype timezone_value = TzStr string | TzInfo zoneinfo

type_synonym ref = nat

subsection \<open>The records\<close>

text \<open>
  Each class is a record of its declared fields; this is also the type of the field mapping
  that \<^verbatim>\<open>dict()\<close> returns and that the constructor takes (with the defaults filled in). A
  class with \<^verbatim>\<open>cached_property\<close> members extends that record by one slot per member: the
  entry that \<^verbatim>\<open>cached_property\<close> writes into the instance's \<^verbatim>\<open>__dict__\<close>, absent (\<open>None\<close>)
  until the first successful access. The root record is declared first and is polymorphic
  in how it holds its nested records (instances or field mappings).
\<close>

record MongoConfig_fields =
  connection_string :: string
  database_name :: string

record MongoConfig = MongoConfig_fields +
  database_instance_cached :: "ref option"

record LDAPConfig =
  local_private_key_file :: string
  local_certificate_file :: string
  ldap_service_uri :: string
  mongo_collection_name :: string
  group_to_prof_json_path :: "string option"
  exceptions_json_path :: "string option"

record AccountMatchingConfig =
  drac_members_csv_path :: path
  drac_roles_csv_path :: path
  make_matches_config :: path

record ('m, 'c) Config_rec =
  mongo :: 'm
  ldap :: LDAPConfig
  account_matching :: AccountMatchingConfig
  sshconfig :: "path option"
  cache :: "path option"
  clusters :: "(string \<times> 'c) list"

record ClusterConfig_fields =
  host :: string
  timezone :: timezone_value
  prometheus_url :: "string option"
  prometheus_headers_file :: "string option"
  name :: "string option"
  sacct_bin :: string
  accounts :: "string list option"
  sshconfig :: "path option"
  duc_inodes_command :: "string option"
  duc_storage_command :: "string option"
  diskusage_report_command :: "string option"

record ClusterConfig = ClusterConfig_fields +
  ssh_cached :: "ref option"
  prometheus_cached :: "ref option"

text \<open>
  A \<^verbatim>\<open>Config\<close> instance holds its \<^verbatim>\<open>ClusterConfig\<close> objects by reference: the validator
  \<^verbatim>\<open>_complete_cluster_fields\<close> assigns to their attributes through the dictionary it is given.
  The dictionary is an association list in insertion order.
\<close>

type_synonym Config = "(MongoConfig, ref) Config_rec"

type_synonym Config_kwargs = "(MongoConfig_fields, ClusterConfig_fields) Config_rec"

subsection \<open>The surroundings\<close>

text \<open>The service handles are opaque objects; a handle is kept by what it was built from.\<close>

type_synonym headers = "(string \<times> string) list"

datatype handle =
    Connection string "string option"
  | PrometheusConnect string headers
  | Database string string

text \<open>What reading and decoding a configuration file can give.\<close>

datatype document = MalformedJSON | SchemaViolation | Document Config_kwargs

record env =
  normpath :: "string \<Rightarrow> string"
  parent :: "path \<Rightarrow> path"
  exists :: "path \<Rightarrow> bool"
  expanduser :: "path \<Rightarrow> exn + path"
  absolute :: "path \<Rightarrow> path"
  path_suffix :: "path \<Rightarrow> string"
  zone_lookup :: "string \<Rightarrow> exn + zoneinfo"
  read_bytes :: "path \<Rightarrow> exn + string"
  json_document :: "string \<Rightarrow> document"
  environ :: "string \<rightharpoonup> string"
  read_headers :: "string \<Rightarrow> exn + headers"
  read_ssh_config :: "path \<Rightarrow> exn + string"
  connection_error :: "string \<Rightarrow> exn option"
  database_error :: "string \<Rightarrow> string \<Rightarrow> exn option"

text \<open>
  \<^item> \<open>normpath s\<close> is \<^verbatim>\<open>str(Path(s))\<close>, \<open>parent\<close> is \<^verbatim>\<open>Path.parent\<close>, \<open>exists\<close> is
    \<^verbatim>\<open>Path.exists()\<close>, \<open>expanduser\<close> and \<open>absolute\<close> are the methods of \<^verbatim>\<open>Path\<close>,
    \<open>path_suffix\<close> is \<^verbatim>\<open>Path.suffix\<close>.
  \<^item> \<open>zone_lookup key\<close> is \<^verbatim>\<open>zoneinfo.ZoneInfo(key)\<close>.
  \<^item> \<open>read_bytes p\<close> is \<^verbatim>\<open>Path.read_bytes()\<close>: the bytes of the file, or the exception raised
    reading it. A \<open>string\<close> is a list of bytes; a Python text is kept by its UTF-8 encoding.
  \<^item> \<open>json_document\<close> is what the JSON decoder and the typed schema make of a text:
    rejected by the decoder (\<^verbatim>\<open>json.JSONDecodeError\<close>), rejected by the schema (an undeclared,
    missing or mistyped field: pydantic's \<^verbatim>\<open>ValidationError\<close>), or the keyword arguments of
    \<^verbatim>\<open>Config\<close>.
  \<^item> \<open>environ\<close> is \<^verbatim>\<open>os.environ\<close>.
  \<^item> \<open>read_headers f\<close> is \<^verbatim>\<open>json.load(open(f, "r", encoding="utf-8"))\<close> and
    \<open>read_ssh_config p\<close> is \<^verbatim>\<open>SSHConfig.from_path(p)\<close>.
  \<^item> \<open>connection_error host\<close> is the exception that fabric's \<^verbatim>\<open>Connection(host, config=...)\<close>
    raises, if it raises, and \<open>database_error connection_string database_name\<close> the one that
    \<^verbatim>\<open>MongoClient(connection_string).get_database(database_name)\<close> raises, if it raises.
\<close>

text \<open>
  A \<^verbatim>\<open>ContextVar\<close> is unbound in a context until it is set there; \<^verbatim>\<open>get()\<close> then gives the
  default, here \<^verbatim>\<open>None\<close>. \<^verbatim>\<open>set\<close> returns a token that remembers what the variable held.
\<close>

datatype 'a cvar = Missing | Bound 'a

record state =
  config_folder :: "string option"
  config_var :: "Config cvar"
  heap :: "ref \<rightharpoonup> ClusterConfig"
  handles :: "ref \<rightharpoonup> handle"
  next_ref :: ref

subsection \<open>The path resolver\<close>

text \<open>
  \<^verbatim>\<open>relative_filepath(path)\<close> reads the module global \<^verbatim>\<open>_config_folder\<close>, here its first
  argument.
\<close>

definition relative_filepath :: "string option \<Rightarrow> string option \<Rightarrow> string option" where
  "relative_filepath folder path =
     (case path of
        None \<Rightarrow> None
      | Some p \<Rightarrow>
          if str_contains ''$SELF'' p then Some (str_replace ''$SELF'' (py_str folder) p)
          else Some p)"

subsection \<open>Field validators\<close>

text \<open>\<^verbatim>\<open>ClusterConfig._timezone\<close>: a string is looked up, a zone object is kept.\<close>

definition ClusterConfig_timezone :: "env \<Rightarrow> timezone_value \<Rightarrow> exn + timezone_value" where
  "ClusterConfig_timezone env value =
     (case value of
        TzStr s \<Rightarrow> (case zone_lookup env s of Inl e \<Rightarrow> Inl e | Inr z \<Rightarrow> Inr (TzInfo z))
      | TzInfo z \<Rightarrow> Inr (TzInfo z))"

text \<open>The two validators of \<^verbatim>\<open>LDAPConfig\<close>.\<close>

definition LDAPConfig_relative_group_to_prof :: "string option \<Rightarrow> string option \<Rightarrow> string option" where
  "LDAPConfig_relative_group_to_prof folder value = relative_filepath folder value"

definition LDAPConfig_relative_exception :: "string option \<Rightarrow> string option \<Rightarrow> string option" where
  "LDAPConfig_relative_exception folder value = relative_filepath folder value"

text \<open>\<^verbatim>\<open>Config._absolute_path\<close>: \<^verbatim>\<open>value and value.expanduser().absolute()\<close>.\<close>

definition Config_absolute_path :: "env \<Rightarrow> path option \<Rightarrow> exn + path option" where
  "Config_absolute_path env value =
     (case value of
        None \<Rightarrow> Inr None
      | Some p \<Rightarrow> (case expanduser env p of Inl e \<Rightarrow> Inl e | Inr q \<Rightarrow> Inr (Some (absolute env q))))"

text \<open>
  \<^verbatim>\<open>Config._complete_cluster_fields(cls, value, values)\<close>. \<open>value\<close> is the validated
  \<^verbatim>\<open>clusters\<close> dictionary, its \<^verbatim>\<open>ClusterConfig\<close> objects on the heap. \<open>values\<close> holds the
  fields validated before \<^verbatim>\<open>clusters\<close>; only the path-typed ones (\<^verbatim>\<open>sshconfig\<close>, \<^verbatim>\<open>cache\<close>) are
  kept here, no validator reads the others. \<open>complete_cluster\<close> is the body of the loop on
  one object (the loop variable \<^verbatim>\<open>name\<close> is called \<open>key\<close>, \<open>name\<close> being the field).
\<close>

type_synonym field_values = "string \<rightharpoonup> path option"

definition complete_cluster :: "string \<Rightarrow> field_values \<Rightarrow> ClusterConfig \<Rightarrow> ClusterConfig" where
  "complete_cluster key values cluster =
     (let cluster1 = (if \<not> str_truthy (name cluster) then cluster\<lparr>name := Some key\<rparr> else cluster)
      in case values ''sshconfig'' of
           None \<Rightarrow> cluster1
         | Some v \<Rightarrow>
             if \<not> path_truthy (ClusterConfig_fields.sshconfig cluster1)
             then cluster1\<lparr>ClusterConfig_fields.sshconfig := v\<rparr>
             else cluster1)"

fun complete_items ::
  "(string \<times> ref) list \<Rightarrow> field_values \<Rightarrow> (ref \<rightharpoonup> ClusterConfig) \<Rightarrow> (ref \<rightharpoonup> ClusterConfig)" where
  "complete_items [] values h = h"
| "complete_items ((key, r) # items) values h =
     complete_items items values
       (case h r of None \<Rightarrow> h | Some cluster \<Rightarrow> h(r \<mapsto> complete_cluster key values cluster))"

definition Config_complete_cluster_fields ::
  "(string \<times> ref) list \<Rightarrow> field_values \<Rightarrow> state \<Rightarrow> (string \<times> ref) list \<times> state" where
  "Config_complete_cluster_fields value values st =
     (value, st\<lparr>heap := complete_items value values (heap st)\<rparr>)"

subsection \<open>Construction\<close>

text \<open>
  The constructors take the field mapping (keyword arguments that passed the typed schema,
  defaults filled in) and run the validators of the class. A new instance has no cached
  handle. An exception of a validator that pydantic catches (\<open>recorded\<close>) fails the field
  and, once all fields have been gone through, the construction with \<^verbatim>\<open>ValidationError\<close>; any
  other exception of a validator leaves the constructor at once.
\<close>

definition MongoConfig_init :: "MongoConfig_fields \<Rightarrow> MongoConfig" where
  "MongoConfig_init kw = MongoConfig_fields.extend kw (MongoConfig.fields None)"

definition LDAPConfig_init :: "string option \<Rightarrow> LDAPConfig \<Rightarrow> LDAPConfig" where
  "LDAPConfig_init folder kw =
     kw\<lparr>group_to_prof_json_path :=
           LDAPConfig_relative_group_to_prof folder (group_to_prof_json_path kw),
        exceptions_json_path :=
           LDAPConfig_relative_exception folder (exceptions_json_path kw)\<rparr>"

definition AccountMatchingConfig_init :: "AccountMatchingConfig \<Rightarrow> AccountMatchingConfig" where
  "AccountMatchingConfig_init kw = kw"

definition ClusterConfig_init :: "env \<Rightarrow> ClusterConfig_fields \<Rightarrow> exn + ClusterConfig" where
  "ClusterConfig_init env kw =
     (case ClusterConfig_timezone env (timezone kw) of
        Inl e \<Rightarrow> Inl (if recorded e then ValidationError else e)
      | Inr tz \<Rightarrow>
          Inr (ClusterConfig_fields.extend (kw\<lparr>timezone := tz\<rparr>) (ClusterConfig.fields None None)))"

text \<open>
  The entries of \<^verbatim>\<open>clusters\<close> are validated one by one, in order. After an entry that fails
  with \<^verbatim>\<open>ValidationError\<close> the remaining entries are still validated, and the field fails
  unless one of them raises an exception that is not caught.
\<close>

fun validate_clusters ::
  "env \<Rightarrow> (string \<times> ClusterConfig_fields) list \<Rightarrow> exn + (string \<times> ClusterConfig) list" where
  "validate_clusters env [] = Inr []"
| "validate_clusters env ((key, kw) # rest) =
     (case ClusterConfig_init env kw of
        Inl e \<Rightarrow>
          if recorded e
          then (case validate_clusters env rest of
                  Inl e' \<Rightarrow> Inl e'
                | Inr cs \<Rightarrow> Inl ValidationError)
          else Inl e
      | Inr c \<Rightarrow>
          (case validate_clusters env rest of
             Inl e \<Rightarrow> Inl e
           | Inr cs \<Rightarrow> Inr ((key, c) # cs)))"

text \<open>Each validated entry is a new object.\<close>

fun new_clusters :: "(string \<times> ClusterConfig) list \<Rightarrow> state \<Rightarrow> (string \<times> ref) list \<times> state" where
  "new_clusters [] st = ([], st)"
| "new_clusters ((key, c) # rest) st =
     (let r = next_ref st;
          (value, st') = new_clusters rest (st\<lparr>heap := (heap st)(r \<mapsto> c), next_ref := Suc r\<rparr>)
      in ((key, r) # value, st'))"

text \<open>
  What the validation of one field comes to: a value, a recorded failure, or an exception that
  is not caught. A field that fails is left out of \<open>values\<close>.
\<close>

datatype 'a field_result = Valid 'a | Invalid | Uncaught exn

definition validate_field :: "exn + 'a \<Rightarrow> 'a field_result" where
  "validate_field r =
     (case r of Inr v \<Rightarrow> Valid v | Inl e \<Rightarrow> if recorded e then Invalid else Uncaught e)"

definition field_entry :: "string \<Rightarrow> path option field_result \<Rightarrow> field_values" where
  "field_entry field r = (case r of Valid v \<Rightarrow> [field \<mapsto> v] | Invalid \<Rightarrow> Map.empty
                          | Uncaught e \<Rightarrow> Map.empty)"

text \<open>
  \<^verbatim>\<open>Config(**kw)\<close>: the fields are validated in the order of their declaration, \<^verbatim>\<open>clusters\<close>
  last, so \<^verbatim>\<open>_complete_cluster_fields\<close> sees the validated \<^verbatim>\<open>sshconfig\<close> and \<^verbatim>\<open>cache\<close> (those
  of the two that did not fail). The validators of \<^verbatim>\<open>LDAPConfig\<close> read \<^verbatim>\<open>_config_folder\<close> from
  the state.
\<close>

definition Config_init :: "env \<Rightarrow> Config_kwargs \<Rightarrow> state \<Rightarrow> (exn + Config) \<times> state" where
  "Config_init env kw st =
     (case validate_field (Config_absolute_path env (Config_rec.sshconfig kw)) of
        Uncaught e \<Rightarrow> (Inl e, st)
      | ssh_result \<Rightarrow>
          (case validate_field (Config_absolute_path env (cache kw)) of
             Uncaught e \<Rightarrow> (Inl e, st)
           | cache_result \<Rightarrow>
               (case validate_clusters env (clusters kw) of
                  Inl e \<Rightarrow> (Inl e, st)
                | Inr cs \<Rightarrow>
                    (let (value, st1) = new_clusters cs st;
                         values = field_entry ''sshconfig'' ssh_result
                                    ++ field_entry ''cache'' cache_result;
                         (value', st2) = Config_complete_cluster_fields value values st1
                     in (case (ssh_result, cache_result) of
                           (Valid ssh_path, Valid cache_path) \<Rightarrow>
                             (Inr \<lparr>mongo = MongoConfig_init (mongo kw),
                                   ldap = LDAPConfig_init (config_folder st) (ldap kw),
                                   account_matching =
                                     AccountMatchingConfig_init (account_matching kw),
                                   sshconfig = ssh_path,
                                   cache = cache_path,
                                   clusters = value'\<rparr>, st2)
                         | _ \<Rightarrow> (Inl ValidationError, st2))))))"

subsection \<open>The loader\<close>

text \<open>
  \<^verbatim>\<open>bytes.decode("utf8")\<close>: the bytes must be well-formed UTF-8 (no stray or missing
  continuation byte, no overlong form, no surrogate, nothing above U+10FFFF); the text is then
  these same bytes.
\<close>

definition byte :: "char \<Rightarrow> nat" where
  "byte c = of_char c"

definition continuation :: "char \<Rightarrow> bool" where
  "continuation c = (0x80 \<le> byte c \<and> byte c \<le> 0xBF)"

text \<open>The length of the sequence that a byte starts; 0 for a byte that starts none.\<close>

definition sequence_length :: "char \<Rightarrow> nat" where
  "sequence_length a =
     (if byte a < 0x80 then 1
      else if 0xC2 \<le> byte a \<and> byte a \<le> 0xDF then 2
      else if 0xE0 \<le> byte a \<and> byte a \<le> 0xEF then 3
      else if 0xF0 \<le> byte a \<and> byte a \<le> 0xF4 then 4
      else 0)"

text \<open>The second byte of a sequence has a narrower range after four of the lead bytes.\<close>

definition second_byte :: "char \<Rightarrow> char \<Rightarrow> bool" where
  "second_byte a b =
     (if byte a = 0xE0 then 0xA0 \<le> byte b \<and> byte b \<le> 0xBF
      else if byte a = 0xED then 0x80 \<le> byte b \<and> byte b \<le> 0x9F
      else if byte a = 0xF0 then 0x90 \<le> byte b \<and> byte b \<le> 0xBF
      else if byte a = 0xF4 then 0x80 \<le> byte b \<and> byte b \<le> 0x8F
      else continuation b)"

fun utf8_valid :: "string \<Rightarrow> bool" where
  "utf8_valid [] = True"
| "utf8_valid (a # bs) =
     (if sequence_length a = 0 \<or> length bs < sequence_length a - 1 then False
      else if sequence_length a = 1 then utf8_valid bs
      else second_byte a (hd bs)
           \<and> list_all continuation (take (sequence_length a - 2) (tl bs))
           \<and> utf8_valid (drop (sequence_length a - 1) bs))"

definition utf8_decode :: "string \<Rightarrow> exn + string" where
  "utf8_decode b = (if utf8_valid b then Inr b else Inl UnicodeDecodeError)"

text \<open>Reading a file as text: \<^verbatim>\<open>path.read_bytes()\<close>, then \<^verbatim>\<open>b.decode("utf8")\<close>.\<close>

definition read_text :: "env \<Rightarrow> path \<Rightarrow> exn + string" where
  "read_text env p =
     (case read_bytes env p of Inl e \<Rightarrow> Inl e | Inr b \<Rightarrow> utf8_decode b)"

text \<open>
  pydantic's \<^verbatim>\<open>load_file\<close> and \<^verbatim>\<open>load_str_bytes\<close>, called by \<^verbatim>\<open>parse_file\<close> with no content type,
  encoding \<^verbatim>\<open>utf8\<close> and pickle not allowed. The file is read first; its suffix selects the
  decoder: JSON for \<^verbatim>\<open>.js\<close> and \<^verbatim>\<open>.json\<close>, pickle for \<^verbatim>\<open>.pkl\<close>, and JSON when the suffix selects
  none. The pickle decoder refuses with \<^verbatim>\<open>RuntimeError\<close>.
\<close>

datatype protocol = Json | Pickle

definition load_str_bytes :: "env \<Rightarrow> string \<Rightarrow> protocol option \<Rightarrow> exn + document" where
  "load_str_bytes env b proto =
     (case (case proto of None \<Rightarrow> Json | Some chosen \<Rightarrow> chosen) of
        Json \<Rightarrow>
          (case utf8_decode b of
             Inl e \<Rightarrow> Inl e
           | Inr content \<Rightarrow> Inr (json_document env content))
      | Pickle \<Rightarrow> Inl RuntimeError)"

definition load_file :: "env \<Rightarrow> path \<Rightarrow> exn + document" where
  "load_file env p =
     (case read_bytes env p of
        Inl e \<Rightarrow> Inl e
      | Inr b \<Rightarrow>
          load_str_bytes env b
            (if path_suffix env p = ''.js'' \<or> path_suffix env p = ''.json'' then Some Json
             else if path_suffix env p = ''.pkl'' then Some Pickle
             else None))"

text \<open>
  \<^verbatim>\<open>Config.parse_file(path)\<close>: load, then construct. A text that the JSON decoder rejects
  leaves \<^verbatim>\<open>load_file\<close> with \<^verbatim>\<open>json.JSONDecodeError\<close>. No exception is translated here.
\<close>

definition Config_parse_file :: "env \<Rightarrow> path \<Rightarrow> state \<Rightarrow> (exn + Config) \<times> state" where
  "Config_parse_file env p st =
     (case load_file env p of
        Inl e \<Rightarrow> (Inl e, st)
      | Inr MalformedJSON \<Rightarrow> (Inl JSONDecodeError, st)
      | Inr SchemaViolation \<Rightarrow> (Inl ValidationError, st)
      | Inr (Document kw) \<Rightarrow> Config_init env kw st)"

text \<open>The argument of \<^verbatim>\<open>Path(...)\<close>: a string or a path object.\<close>

datatype pathlike = Str string | PathObj path

definition to_path :: "env \<Rightarrow> pathlike \<Rightarrow> path" where
  "to_path env x = (case x of Str s \<Rightarrow> Path (normpath env s) | PathObj p \<Rightarrow> p)"

definition quoted :: "string \<Rightarrow> string" where
  "quoted s = [CHR 0x27] @ s @ [CHR 0x27]"

definition not_found_message :: "path \<Rightarrow> string" where
  "not_found_message config_path =
     ''Cannot read SARC configuration file: '' @ quoted (path_str config_path)
       @ '' Use the $SARC_CONFIG environment variable to choose the config file.''"

definition malformed_message :: "path \<Rightarrow> string" where
  "malformed_message config_path = quoted (path_str config_path) @ '' contains malformed JSON''"

definition parse_config :: "env \<Rightarrow> pathlike \<Rightarrow> state \<Rightarrow> (exn + Config) \<times> state" where
  "parse_config env config_path st =
     (let config_path = to_path env config_path;
          st = st\<lparr>config_folder := Some (path_str (parent env config_path))\<rparr>
      in if \<not> exists env config_path
         then (Inl (ConfigurationError (not_found_message config_path)), st)
         else
           (case Config_parse_file env config_path st of
              (Inl JSONDecodeError, st') \<Rightarrow>
                (Inl (ConfigurationError (malformed_message config_path)), st')
            | (result, st') \<Rightarrow> (result, st')))"

subsection \<open>The current configuration\<close>

definition cvar_get :: "'a cvar \<Rightarrow> 'a option" where
  "cvar_get v = (case v of Missing \<Rightarrow> None | Bound x \<Rightarrow> Some x)"

text \<open>\<^verbatim>\<open>config_var.set(cfg)\<close> returns the token, \<^verbatim>\<open>config_var.reset(token)\<close> puts back what it holds.\<close>

definition config_var_set :: "Config \<Rightarrow> state \<Rightarrow> Config cvar \<times> state" where
  "config_var_set cfg st = (config_var st, st\<lparr>config_var := Bound cfg\<rparr>)"

definition config_var_reset :: "Config cvar \<Rightarrow> state \<Rightarrow> state" where
  "config_var_reset token st = st\<lparr>config_var := token\<rparr>"

definition config :: "env \<Rightarrow> state \<Rightarrow> (exn + Config) \<times> state" where
  "config env st =
     (case cvar_get (config_var st) of
        Some current \<Rightarrow> (Inr current, st)
      | None \<Rightarrow>
          (case parse_config env
                  (Str (case environ env ''SARC_CONFIG'' of
                          None \<Rightarrow> ''config/sarc-dev.json'' | Some p \<Rightarrow> p)) st of
             (Inl e, st') \<Rightarrow> (Inl e, st')
           | (Inr cfg, st') \<Rightarrow> (Inr cfg, snd (config_var_set cfg st'))))"

text \<open>
  \<^verbatim>\<open>using_config\<close> is a generator function under \<^verbatim>\<open>@contextmanager\<close>. \<open>using_config_enter\<close> is
  its code up to the \<^verbatim>\<open>yield\<close> (it gives the yielded value and the token, a local variable of
  the generator), \<open>using_config_exit\<close> its code after the \<^verbatim>\<open>yield\<close>.
\<close>

datatype config_arg = PathArg pathlike | ConfigArg Config

definition using_config_enter ::
  "env \<Rightarrow> config_arg \<Rightarrow> state \<Rightarrow> (exn + Config \<times> Config cvar) \<times> state" where
  "using_config_enter env cfg st =
     (case (case cfg of PathArg p \<Rightarrow> parse_config env p st | ConfigArg c \<Rightarrow> (Inr c, st)) of
        (Inl e, st1) \<Rightarrow> (Inl e, st1)
      | (Inr c, st1) \<Rightarrow> (let (token, st2) = config_var_set c st1 in (Inr (c, token), st2)))"

definition using_config_exit :: "Config cvar \<Rightarrow> state \<Rightarrow> state" where
  "using_config_exit token st = config_var_reset token st"

text \<open>
  How the body of a \<^verbatim>\<open>with\<close> block ends: it runs to its end, it leaves by \<^verbatim>\<open>return\<close>, or it
  raises.
\<close>

datatype 'a completion = Normal | Return 'a | Raise exn

text \<open>
  \<^verbatim>\<open>with using_config(cfg) as c: body\<close>. Entering runs the generator to its \<^verbatim>\<open>yield\<close>. When the
  body ends without an exception the context manager resumes the generator, which runs the
  code after the \<^verbatim>\<open>yield\<close>. When the body raises, the context manager throws the exception
  into the generator at the \<^verbatim>\<open>yield\<close>; \<^verbatim>\<open>using_config\<close> has no \<^verbatim>\<open>try\<close> around it, so the
  generator ends with that exception, the code after the \<^verbatim>\<open>yield\<close> is not executed and the
  exception leaves the \<^verbatim>\<open>with\<close> statement.
\<close>

definition with_using_config ::
  "env \<Rightarrow> config_arg \<Rightarrow> (Config \<Rightarrow> state \<Rightarrow> 'a completion \<times> state) \<Rightarrow> state
     \<Rightarrow> 'a completion \<times> state" where
  "with_using_config env cfg body st =
     (case using_config_enter env cfg st of
        (Inl e, st1) \<Rightarrow> (Raise e, st1)
      | (Inr (c, token), st1) \<Rightarrow>
          (case body c st1 of
             (Raise e, st2) \<Rightarrow> (Raise e, st2)
           | (Normal, st2) \<Rightarrow> (Normal, using_config_exit token st2)
           | (Return v, st2) \<Rightarrow> (Return v, using_config_exit token st2)))"

subsection \<open>Lazy service handles\<close>

text \<open>A constructed handle is a new object.\<close>

definition new_handle :: "handle \<Rightarrow> state \<Rightarrow> ref \<times> state" where
  "new_handle h st =
     (next_ref st, st\<lparr>handles := (handles st)(next_ref st \<mapsto> h), next_ref := Suc (next_ref st)\<rparr>)"

text \<open>
  \<^verbatim>\<open>functools.cached_property\<close>: when the instance's \<^verbatim>\<open>__dict__\<close> has the entry, it is the
  value of the attribute; otherwise the decorated method runs and, if it returns, its result
  is stored in the \<^verbatim>\<open>__dict__\<close>. An exception of the method leaves the \<^verbatim>\<open>__dict__\<close> as it
  was. \<open>slot\<close> reads the entry and \<open>store\<close> writes it.
\<close>

definition cached_property ::
  "('s \<Rightarrow> ref option) \<Rightarrow> (ref \<Rightarrow> 's \<Rightarrow> 's) \<Rightarrow> ('s \<Rightarrow> state \<Rightarrow> (exn + ref) \<times> state)
     \<Rightarrow> 's \<Rightarrow> state \<Rightarrow> (exn + ref) \<times> 's \<times> state" where
  "cached_property slot store func self st =
     (case slot self of
        Some val \<Rightarrow> (Inr val, self, st)
      | None \<Rightarrow>
          (case func self st of
             (Inl e, st') \<Rightarrow> (Inl e, self, st')
           | (Inr val, st') \<Rightarrow> (Inr val, store val self, st')))"

text \<open>
  The body of \<^verbatim>\<open>ClusterConfig.ssh\<close>: the SSH configuration is read when there is one, then the
  connection object is constructed, which fabric may refuse.
\<close>

definition ssh_func :: "env \<Rightarrow> ClusterConfig \<Rightarrow> state \<Rightarrow> (exn + ref) \<times> state" where
  "ssh_func env self st =
     (case ClusterConfig_fields.sshconfig self of
        None \<Rightarrow>
          (case connection_error env (host self) of
             Some e \<Rightarrow> (Inl e, st)
           | None \<Rightarrow>
               (let (h, st') = new_handle (Connection (host self) None) st in (Inr h, st')))
      | Some p \<Rightarrow>
          (case read_ssh_config env p of
             Inl e \<Rightarrow> (Inl e, st)
           | Inr fconfig \<Rightarrow>
               (case connection_error env (host self) of
                  Some e \<Rightarrow> (Inl e, st)
                | None \<Rightarrow>
                    (let (h, st') = new_handle (Connection (host self) (Some fconfig)) st
                     in (Inr h, st')))))"

definition ssh :: "env \<Rightarrow> ClusterConfig \<Rightarrow> state \<Rightarrow> (exn + ref) \<times> ClusterConfig \<times> state" where
  "ssh env = cached_property ssh_cached (\<lambda>v self. self\<lparr>ssh_cached := Some v\<rparr>) (ssh_func env)"

text \<open>
  The body of \<^verbatim>\<open>ClusterConfig.prometheus\<close>: the headers file is read first, the URL is checked
  after it.
\<close>

definition no_url_message :: "ClusterConfig \<Rightarrow> string" where
  "no_url_message self = ''No prometheus URL provided for cluster '' @ quoted (py_str (name self))"

definition prometheus_func :: "env \<Rightarrow> ClusterConfig \<Rightarrow> state \<Rightarrow> (exn + ref) \<times> state" where
  "prometheus_func env self st =
     (case (case prometheus_headers_file self of
              Some f \<Rightarrow> read_headers env f
            | None \<Rightarrow> Inr []) of
        Inl e \<Rightarrow> (Inl e, st)
      | Inr headers \<Rightarrow>
          (case prometheus_url self of
             None \<Rightarrow> (Inl (ConfigurationError (no_url_message self)), st)
           | Some url \<Rightarrow>
               (let (h, st') = new_handle (PrometheusConnect url headers) st in (Inr h, st'))))"

definition prometheus ::
  "env \<Rightarrow> ClusterConfig \<Rightarrow> state \<Rightarrow> (exn + ref) \<times> ClusterConfig \<times> state" where
  "prometheus env =
     cached_property prometheus_cached (\<lambda>v self. self\<lparr>prometheus_cached := Some v\<rparr>)
       (prometheus_func env)"

text \<open>
  The body of \<^verbatim>\<open>MongoConfig.database_instance\<close>: the client and its database object are
  constructed, which pymongo may refuse.
\<close>

definition database_instance_func ::
  "env \<Rightarrow> MongoConfig \<Rightarrow> state \<Rightarrow> (exn + ref) \<times> state" where
  "database_instance_func env self st =
     (case database_error env (connection_string self) (database_name self) of
        Some e \<Rightarrow> (Inl e, st)
      | None \<Rightarrow>
          (let (h, st') = new_handle (Database (connection_string self) (database_name self)) st
           in (Inr h, st')))"

definition database_instance ::
  "env \<Rightarrow> MongoConfig \<Rightarrow> state \<Rightarrow> (exn + ref) \<times> MongoConfig \<times> state" where
  "database_instance env =
     cached_property database_instance_cached (\<lambda>v self. self\<lparr>database_instance_cached := Some v\<rparr>)
       (database_instance_func env)"

text \<open>
  Assigning to a field of an instance (\<^verbatim>\<open>cluster.prometheus_url = url\<close>): the \<^verbatim>\<open>__dict__\<close>
  entry of the field is replaced, the other entries, the cached ones among them, stay.
\<close>

definition set_prometheus_url :: "string option \<Rightarrow> ClusterConfig \<Rightarrow> ClusterConfig" where
  "set_prometheus_url url self = self\<lparr>prometheus_url := url\<rparr>"

subsection \<open>The strict record base: \<^verbatim>\<open>dict\<close> and \<^verbatim>\<open>replace\<close>\<close>


definition ClusterConfig_dict :: "ClusterConfig \<Rightarrow> ClusterConfig_fields" where
  "ClusterConfig_dict self = ClusterConfig_fields.truncate self"
























subsection \<open>What the constructors establish\<close>






subsection \<open>A sample of surroundings\<close>

text \<open>
  Concrete surroundings, a concrete document and an initial state, on which the definitions
  are run in the examples below. \<open>dirname\<close> and \<open>suffix_of\<close> serve the sample \<open>parent\<close>
  and \<open>path_suffix\<close> only. The sample has four files: a configuration, a file with an
  unbalanced brace, a file whose bytes are not UTF-8, and a file with the suffix \<^verbatim>\<open>.pkl\<close>.
\<close>

definition dirname :: "string \<Rightarrow> string" where
  "dirname s =
     (let d = rev (drop 1 (dropWhile (\<lambda>c. c \<noteq> CHR ''/'') (rev s)))
      in if d \<noteq> [] then d else if prefix ''/'' s then ''/'' else ''.'')"

definition suffix_of :: "string \<Rightarrow> string" where
  "suffix_of s =
     (let name = rev (takeWhile (\<lambda>c. c \<noteq> CHR ''/'') (rev s));
          r = takeWhile (\<lambda>c. c \<noteq> CHR ''.'') (rev name)
      in if r \<noteq> [] \<and> length r + 1 < length name then CHR ''.'' # rev r else [])"

definition example_cluster_kwargs :: ClusterConfig_fields where
  "example_cluster_kwargs =
     \<lparr>host = ''login.mila.quebec'', timezone = TzStr ''America/Montreal'',
      prometheus_url = None, prometheus_headers_file = None, name = None,
      sacct_bin = ''sacct'', accounts = None, sshconfig = None,
      duc_inodes_command = None, duc_storage_command = None,
      diskusage_report_command = None\<rparr>"

definition example_kwargs :: Config_kwargs where
  "example_kwargs =
     \<lparr>mongo = \<lparr>connection_string = ''localhost:27017'', database_name = ''sarc''\<rparr>,
      ldap = \<lparr>local_private_key_file = ''secrets/ldap.key'',
              local_certificate_file = ''secrets/ldap.crt'',
              ldap_service_uri = ''ldaps://ldap.example.org'',
              mongo_collection_name = ''users'',
              group_to_prof_json_path = Some ''$SELF/group_to_prof.json'',
              exceptions_json_path = None\<rparr>,
      account_matching = \<lparr>drac_members_csv_path = Path ''secrets/members.csv'',
                          drac_roles_csv_path = Path ''secrets/roles.csv'',
                          make_matches_config = Path ''secrets/matches.json''\<rparr>,
      sshconfig = Some (Path ''/home/sarc/.ssh/config''),
      cache = None,
      clusters = [(''mila'', example_cluster_kwargs)]\<rparr>"

definition example_env :: env where
  "example_env =
     \<lparr>normpath = (\<lambda>s. s),
      parent = (\<lambda>p. Path (dirname (path_str p))),
      exists = (\<lambda>p. p = Path ''/etc/sarc/config.json'' \<or> p = Path ''/etc/sarc/broken.json''
                     \<or> p = Path ''/etc/sarc/binary.json'' \<or> p = Path ''/etc/sarc/config.pkl''),
      expanduser = (\<lambda>p. Inr p),
      absolute = (\<lambda>p. if prefix ''/'' (path_str p) then p else Path (''/srv/sarc/'' @ path_str p)),
      path_suffix = (\<lambda>p. suffix_of (path_str p)),
      zone_lookup = (\<lambda>key. if key = ''America/Montreal'' \<or> key = ''UTC''
                            then Inr (ZoneInfo key) else Inl ZoneInfoNotFoundError),
      read_bytes = (\<lambda>p. if p = Path ''/etc/sarc/config.json'' then Inr ''{ ... }''
                         else if p = Path ''/etc/sarc/broken.json'' then Inr ''{''
                         else if p = Path ''/etc/sarc/binary.json'' then Inr [CHR 0xFF, CHR 0xFE]
                         else if p = Path ''/etc/sarc/config.pkl'' then Inr ''{''
                         else Inl OSError),
      json_document = (\<lambda>text. if text = ''{ ... }'' then Document example_kwargs
                              else MalformedJSON),
      environ = Map.empty,
      read_headers = (\<lambda>f. if f = ''/etc/sarc/headers.json''
                           then Inr [(''Authorization'', ''Bearer 0'')] else Inl OSError),
      read_ssh_config = (\<lambda>p. if p = Path ''/home/sarc/.ssh/config''
                              then Inr ''Host *'' else Inl OSError),
      connection_error = (\<lambda>host. if host = [] then Some ValueError else None),
      database_error = (\<lambda>connection_string database_name.
                          if database_name = [] then Some (Exception ''InvalidName'') else None)\<rparr>"

definition example_state :: state where
  "example_state =
     \<lparr>config_folder = None, config_var = Missing, heap = Map.empty, handles = Map.empty,
      next_ref = 0\<rparr>"

text \<open>A configuration object to install as the current one.\<close>

definition example_config :: Config where
  "example_config =
     \<lparr>mongo = MongoConfig_init (mongo example_kwargs),
      ldap = ldap example_kwargs,
      account_matching = account_matching example_kwargs,
      sshconfig = None, cache = None, clusters = []\<rparr>"

text \<open>A cluster instance and a store instance, as their constructors make them.\<close>

definition example_cluster :: ClusterConfig where
  "example_cluster =
     ClusterConfig_fields.extend
       (example_cluster_kwargs\<lparr>timezone := TzInfo (ZoneInfo ''America/Montreal''),
                               name := Some ''mila''\<rparr>)
       (ClusterConfig.fields None None)"

definition example_mongo :: MongoConfig where
  "example_mongo = MongoConfig_init (mongo example_kwargs)"

text \<open>What constructing the sample document gives: the root object and the state with its cluster object.\<close>

definition example_loaded :: Config where
  "example_loaded =
     \<lparr>mongo = example_mongo,
      ldap = LDAPConfig_init None (ldap example_kwargs),
      account_matching = account_matching example_kwargs,
      sshconfig = Some (Path ''/home/sarc/.ssh/config''),
      cache = None,
      clusters = [(''mila'', 0)]\<rparr>"

definition example_loaded_state :: state where
  "example_loaded_state =
     example_state
       \<lparr>heap := [0 \<mapsto> example_cluster
                         \<lparr>ClusterConfig_fields.sshconfig := Some (Path ''/home/sarc/.ssh/config'')\<rparr>],
        next_ref := 1\<rparr>"

text \<open>
  Two variations: the sample document with an empty cluster name, and a constructed root
  object without an \<^verbatim>\<open>sshconfig\<close>, its one cluster having none either.
\<close>

definition example_kwargs_empty_name :: Config_kwargs where
  "example_kwargs_empty_name =
     example_kwargs\<lparr>clusters := [(''mila'', example_cluster_kwargs\<lparr>name := Some ''''\<rparr>)]\<rparr>"



section \<open>Properties\<close>

subsection \<open>Strings\<close>

lemma str_contains_iff: "str_contains sub s \<longleftrightarrow> (\<exists>a b. s = a @ sub @ b)"
proof (induction s)
  case Nil
  then show ?case by auto
next
  case (Cons c cs)
  show ?case
  proof
    assume "str_contains sub (c # cs)"
    then consider "prefix sub (c # cs)" | "str_contains sub cs" by auto
    then show "\<exists>a b. c # cs = a @ sub @ b"
    proof cases
      case 1
      then obtain b where "c # cs = sub @ b" by (auto simp: prefix_def)
      then have "c # cs = [] @ sub @ b" by simp
      then show ?thesis by blast
    next
      case 2
      with Cons.IH obtain a b where "cs = a @ sub @ b" by blast
      then have "c # cs = (c # a) @ sub @ b" by simp
      then show ?thesis by blast
    qed
  next
    assume "\<exists>a b. c # cs = a @ sub @ b"
    then obtain a b where ab: "c # cs = a @ sub @ b" by blast
    show "str_contains sub (c # cs)"
    proof (cases a)
      case Nil
      with ab have "prefix sub (c # cs)" by (simp add: prefix_def)
      then show ?thesis by simp
    next
      case (Cons x xs)
      with ab have "cs = xs @ sub @ b" by simp
      with Cons.IH have "str_contains sub cs" by blast
      then show ?thesis by simp
    qed
  qed
qed

lemma str_contains_middle: "str_contains sub (a @ sub @ b)"
  unfolding str_contains_iff by blast

lemma str_replace_absent:
  "old \<noteq> [] \<Longrightarrow> \<not> str_contains old s \<Longrightarrow> str_replace old new s = s"
  by (induction s) auto

lemma quoted_contains: "str_contains s (a @ quoted s @ b)"
proof -
  have "a @ quoted s @ b = (a @ [CHR 0x27]) @ s @ ([CHR 0x27] @ b)"
    by (simp add: quoted_def)
  then show ?thesis by (simp only: str_contains_middle)
qed

subsection \<open>The path resolver\<close>

text \<open>
  Claim C7. The path resolver maps \<^verbatim>\<open>None\<close> to \<^verbatim>\<open>None\<close>. A path without the sentinel
  \<^verbatim>\<open>$SELF\<close> is returned unchanged, so resolving is idempotent on such paths. For a fixed
  configuration directory the result for a path with the sentinel is a function of the path
  alone: the path with every occurrence of the sentinel replaced by that directory.
\<close>

theorem relative_filepath_resolver:
  "relative_filepath folder None = None
   \<and> (\<not> str_contains ''$SELF'' p \<longrightarrow>
        relative_filepath folder (Some p) = Some p
        \<and> relative_filepath folder (relative_filepath folder (Some p)) = relative_filepath folder (Some p))
   \<and> (str_contains ''$SELF'' p \<longrightarrow>
        relative_filepath (Some dir) (Some p) = Some (str_replace ''$SELF'' dir p))"
proof (intro conjI impI)
  show "relative_filepath folder None = None"
    by (simp add: relative_filepath_def)
next
  assume absent: "\<not> str_contains ''$SELF'' p"
  then show unchanged: "relative_filepath folder (Some p) = Some p"
    by (simp add: relative_filepath_def)
  then show "relative_filepath folder (relative_filepath folder (Some p))
               = relative_filepath folder (Some p)"
    by simp
next
  assume "str_contains ''$SELF'' p"
  then show "relative_filepath (Some dir) (Some p) = Some (str_replace ''$SELF'' dir p)"
    by (simp add: relative_filepath_def py_str_def)
qed

theorem relative_filepath_resolver_witness:
  "relative_filepath (Some ''/etc/sarc'') None = None
   \<and> \<not> str_contains ''$SELF'' ''/data/groups.json''
   \<and> relative_filepath (Some ''/etc/sarc'') (Some ''/data/groups.json'') = Some ''/data/groups.json''
   \<and> relative_filepath (Some ''/etc/sarc'')
        (relative_filepath (Some ''/etc/sarc'') (Some ''/data/groups.json''))
       = relative_filepath (Some ''/etc/sarc'') (Some ''/data/groups.json'')
   \<and> str_contains ''$SELF'' ''$SELF/groups.json''
   \<and> relative_filepath (Some ''/etc/sarc'') (Some ''$SELF/groups.json'')
       = Some ''/etc/sarc/groups.json''"
proof -
  have a: "\<not> str_contains ''$SELF'' ''/data/groups.json''" by simp
  have b: "str_contains ''$SELF'' ''$SELF/groups.json''" by simp
  have c: "str_replace ''$SELF'' ''/etc/sarc'' ''$SELF/groups.json'' = ''/etc/sarc/groups.json''"
    by simp
  from relative_filepath_resolver [of "Some ''/etc/sarc''" "''/data/groups.json''" "''/etc/sarc''"]
       relative_filepath_resolver [of "Some ''/etc/sarc''" "''$SELF/groups.json''" "''/etc/sarc''"]
       a b c
  show ?thesis by simp
qed

subsection \<open>The loader\<close>

text \<open>
  Claim C8. For a path that does not exist, \<^verbatim>\<open>parse_config\<close> raises \<^verbatim>\<open>ConfigurationError\<close>
  with a message that contains the path and the name of the environment variable
  \<^verbatim>\<open>$SARC_CONFIG\<close>.
\<close>

theorem parse_config_missing_file:
  assumes "\<not> exists env (to_path env config_path)"
  shows "fst (parse_config env config_path st)
           = Inl (ConfigurationError (not_found_message (to_path env config_path)))
         \<and> str_contains (path_str (to_path env config_path))
             (not_found_message (to_path env config_path))
         \<and> str_contains ''$SARC_CONFIG'' (not_found_message (to_path env config_path))"
proof -
  let ?p = "to_path env config_path"
  have 1: "fst (parse_config env config_path st) = Inl (ConfigurationError (not_found_message ?p))"
    using assms by (simp add: parse_config_def Let_def)
  have 2: "str_contains (path_str ?p) (not_found_message ?p)"
    unfolding not_found_message_def by (rule quoted_contains)
  have "not_found_message ?p
          = (''Cannot read SARC configuration file: '' @ quoted (path_str ?p) @ '' Use the '')
            @ ''$SARC_CONFIG'' @ '' environment variable to choose the config file.''"
    by (simp add: not_found_message_def)
  then have 3: "str_contains ''$SARC_CONFIG'' (not_found_message ?p)"
    by (simp only: str_contains_middle)
  from 1 2 3 show ?thesis by blast
qed

theorem parse_config_missing_file_witness:
  "\<not> exists example_env (to_path example_env (Str ''/does/not/exist.json''))
   \<and> fst (parse_config example_env (Str ''/does/not/exist.json'') example_state)
       = Inl (ConfigurationError
           ''Cannot read SARC configuration file: '/does/not/exist.json' Use the $SARC_CONFIG environment variable to choose the config file.'')"
proof -
  have h: "\<not> exists example_env (to_path example_env (Str ''/does/not/exist.json''))"
    by (simp add: example_env_def to_path_def)
  have m: "not_found_message (to_path example_env (Str ''/does/not/exist.json''))
            = ''Cannot read SARC configuration file: '/does/not/exist.json' Use the $SARC_CONFIG environment variable to choose the config file.''"
    by (simp add: example_env_def to_path_def not_found_message_def quoted_def)
  from parse_config_missing_file [OF h, of example_state] h m show ?thesis by simp
qed

text \<open>Constructing a configuration touches the heap of cluster objects only.\<close>

lemma new_clusters_frame:
  "new_clusters cs st = (value, st') \<Longrightarrow>
     config_folder st' = config_folder st \<and> config_var st' = config_var st
     \<and> handles st' = handles st"
proof (induction cs arbitrary: st "value" st')
  case Nil
  then show ?case by simp
next
  case (Cons kc cs)
  obtain key c where kc: "kc = (key, c)" by (cases kc)
  let ?st1 = "st\<lparr>heap := (heap st)(next_ref st \<mapsto> c), next_ref := Suc (next_ref st)\<rparr>"
  obtain v1 st1 where r: "new_clusters cs ?st1 = (v1, st1)" by (cases "new_clusters cs ?st1")
  with Cons.prems kc have "st' = st1" by (simp add: Let_def)
  with Cons.IH [OF r] show ?case by simp
qed

lemma validate_field_Valid: "validate_field r = Valid v \<longleftrightarrow> r = Inr v"
  by (auto simp: validate_field_def split: sum.splits)

lemma Config_init_valid:
  assumes "Config_absolute_path env (Config_rec.sshconfig kw) = Inr a"
    and "Config_absolute_path env (cache kw) = Inr b"
    and "validate_clusters env (clusters kw) = Inr cs"
    and "new_clusters cs st = (value, st1)"
  shows "Config_init env kw st =
           (Inr \<lparr>mongo = MongoConfig_init (mongo kw),
                 ldap = LDAPConfig_init (config_folder st) (ldap kw),
                 account_matching = AccountMatchingConfig_init (account_matching kw),
                 sshconfig = a, cache = b, clusters = value\<rparr>,
            st1\<lparr>heap := complete_items value [''sshconfig'' \<mapsto> a, ''cache'' \<mapsto> b] (heap st1)\<rparr>)"
  using assms
  by (simp add: Config_init_def validate_field_def field_entry_def
                Config_complete_cluster_fields_def Let_def)

lemma Config_init_Inr:
  assumes "Config_init env kw st = (Inr cfg, st')"
  shows "\<exists>a b cs. Config_absolute_path env (Config_rec.sshconfig kw) = Inr a
           \<and> Config_absolute_path env (cache kw) = Inr b
           \<and> validate_clusters env (clusters kw) = Inr cs"
proof -
  let ?r1 = "validate_field (Config_absolute_path env (Config_rec.sshconfig kw))"
  let ?r2 = "validate_field (Config_absolute_path env (cache kw))"
  from assms obtain cs where cs: "validate_clusters env (clusters kw) = Inr cs"
    by (cases ?r1; cases ?r2; cases "validate_clusters env (clusters kw)")
       (auto simp: Config_init_def)
  from assms cs obtain a where a: "?r1 = Valid a"
    by (cases ?r1; cases ?r2)
       (auto simp: Config_init_def Let_def split: prod.splits)
  from assms cs obtain b where b: "?r2 = Valid b"
    by (cases ?r1; cases ?r2)
       (auto simp: Config_init_def Let_def split: prod.splits)
  from a b cs show ?thesis by (auto simp: validate_field_Valid)
qed

lemma Config_init_state:
  assumes "Config_init env kw st = (result, st')"
  shows "st' = st
         \<or> (\<exists>cs vals value st1. new_clusters cs st = (value, st1)
               \<and> st' = st1\<lparr>heap := complete_items value vals (heap st1)\<rparr>)"
proof (cases "validate_clusters env (clusters kw)")
  case (Inl e)
  with assms have "st' = st"
    by (cases "validate_field (Config_absolute_path env (Config_rec.sshconfig kw))";
        cases "validate_field (Config_absolute_path env (cache kw))")
       (auto simp: Config_init_def)
  then show ?thesis by simp
next
  case (Inr cs)
  obtain v1 st1 where r: "new_clusters cs st = (v1, st1)" by (cases "new_clusters cs st")
  with assms Inr have "st' = st \<or> (\<exists>vals. st' = st1\<lparr>heap := complete_items v1 vals (heap st1)\<rparr>)"
    by (cases "validate_field (Config_absolute_path env (Config_rec.sshconfig kw))";
        cases "validate_field (Config_absolute_path env (cache kw))")
       (auto simp: Config_init_def Config_complete_cluster_fields_def Let_def)
  with r show ?thesis by blast
qed

lemma Config_init_frame:
  assumes "Config_init env kw st = (result, st')"
  shows "config_folder st' = config_folder st \<and> config_var st' = config_var st
         \<and> handles st' = handles st"
proof -
  from Config_init_state [OF assms] consider "st' = st"
    | cs vals "value" st1 where "new_clusters cs st = (value, st1)"
        and "st' = st1\<lparr>heap := complete_items value vals (heap st1)\<rparr>"
    by blast
  then show ?thesis
  proof cases
    case 1
    then show ?thesis by simp
  next
    case 2
    with new_clusters_frame [OF 2(1)] show ?thesis by simp
  qed
qed

lemma Config_parse_file_frame:
  assumes "Config_parse_file env p st = (result, st')"
  shows "config_folder st' = config_folder st \<and> config_var st' = config_var st
         \<and> handles st' = handles st"
proof (cases "\<exists>kw. load_file env p = Inr (Document kw)")
  case True
  then obtain kw where "load_file env p = Inr (Document kw)" by blast
  with assms have "Config_init env kw st = (result, st')"
    by (simp add: Config_parse_file_def)
  then show ?thesis by (rule Config_init_frame)
next
  case False
  with assms have "st' = st"
    by (auto simp: Config_parse_file_def split: sum.splits document.splits)
  then show ?thesis by simp
qed

lemma Config_parse_file_config_folder:
  "config_folder (snd (Config_parse_file env p st)) = config_folder st"
  using Config_parse_file_frame [of env p st] by (cases "Config_parse_file env p st") simp

lemma Config_parse_file_config_var:
  "config_var (snd (Config_parse_file env p st)) = config_var st"
  using Config_parse_file_frame [of env p st] by (cases "Config_parse_file env p st") simp

lemma parse_config_config_var:
  "config_var (snd (parse_config env p st)) = config_var st"
  using Config_parse_file_config_var
          [of env "to_path env p" "st\<lparr>config_folder := Some (path_str (parent env (to_path env p)))\<rparr>"]
  by (auto simp: parse_config_def Let_def split: prod.splits sum.splits exn.splits)

text \<open>What a successful construction and a successful load went through.\<close>

lemma Config_init_success:
  assumes "Config_init env kw st = (Inr cfg, st')"
  shows "\<exists>cs value st1.
           validate_clusters env (clusters kw) = Inr cs
           \<and> new_clusters cs st = (value, st1)
           \<and> Config_absolute_path env (Config_rec.sshconfig kw) = Inr (Config_rec.sshconfig cfg)
           \<and> Config_absolute_path env (cache kw) = Inr (cache cfg)
           \<and> clusters cfg = value
           \<and> mongo cfg = MongoConfig_init (mongo kw)
           \<and> ldap cfg = LDAPConfig_init (config_folder st) (ldap kw)
           \<and> account_matching cfg = AccountMatchingConfig_init (account_matching kw)
           \<and> st' = st1\<lparr>heap := complete_items value
                  [''sshconfig'' \<mapsto> Config_rec.sshconfig cfg, ''cache'' \<mapsto> cache cfg] (heap st1)\<rparr>"
proof -
  from Config_init_Inr [OF assms] obtain a b cs where
    a: "Config_absolute_path env (Config_rec.sshconfig kw) = Inr a"
    and b: "Config_absolute_path env (cache kw) = Inr b"
    and cs: "validate_clusters env (clusters kw) = Inr cs" by blast
  obtain v1 st1 where r: "new_clusters cs st = (v1, st1)" by (cases "new_clusters cs st")
  from Config_init_valid [OF a b cs r] assms a b cs r show ?thesis by auto
qed

lemma load_file_document:
  "load_file env p = Inr d \<Longrightarrow>
     \<exists>content. read_text env p = Inr content \<and> json_document env content = d
               \<and> path_suffix env p \<noteq> ''.pkl''"
  by (auto simp: load_file_def load_str_bytes_def read_text_def
           split: sum.splits if_splits)

lemma parse_config_success:
  assumes "parse_config env config_path st = (Inr cfg, st')"
  shows "\<exists>content kw.
           read_text env (to_path env config_path) = Inr content
           \<and> json_document env content = Document kw
           \<and> Config_init env kw
                (st\<lparr>config_folder := Some (path_str (parent env (to_path env config_path)))\<rparr>)
               = (Inr cfg, st')"
proof -
  let ?p = "to_path env config_path"
  let ?st = "st\<lparr>config_folder := Some (path_str (parent env ?p))\<rparr>"
  from assms have ex: "exists env ?p"
    by (auto simp: parse_config_def Let_def split: if_splits)
  with assms have pf: "Config_parse_file env ?p ?st = (Inr cfg, st')"
    by (auto simp: parse_config_def Let_def split: prod.splits sum.splits exn.splits)
  then obtain kw where l: "load_file env ?p = Inr (Document kw)"
    and i: "Config_init env kw ?st = (Inr cfg, st')"
    by (auto simp: Config_parse_file_def split: sum.splits document.splits)
  from load_file_document [OF l] i show ?thesis by blast
qed

text \<open>The sample files: their bytes, their suffixes and what the loader makes of them.\<close>

lemma sample_texts:
  "utf8_decode ''{ ... }'' = Inr ''{ ... }''"
  "utf8_decode ''{'' = Inr ''{''"
  "utf8_decode [CHR 0xFF, CHR 0xFE] = Inl UnicodeDecodeError"
  by (simp_all add: utf8_decode_def sequence_length_def byte_def)

lemma sample_suffixes:
  "path_suffix example_env (Path ''/etc/sarc/config.json'') = ''.json''"
  "path_suffix example_env (Path ''/etc/sarc/broken.json'') = ''.json''"
  "path_suffix example_env (Path ''/etc/sarc/binary.json'') = ''.json''"
  "path_suffix example_env (Path ''/etc/sarc/config.pkl'') = ''.pkl''"
  by (simp_all add: example_env_def suffix_of_def)

lemma sample_bytes:
  "read_bytes example_env (Path ''/etc/sarc/config.json'') = Inr ''{ ... }''"
  "read_bytes example_env (Path ''/etc/sarc/broken.json'') = Inr ''{''"
  "read_bytes example_env (Path ''/etc/sarc/binary.json'') = Inr [CHR 0xFF, CHR 0xFE]"
  "read_bytes example_env (Path ''/etc/sarc/config.pkl'') = Inr ''{''"
  by (simp_all add: example_env_def)

lemma sample_documents:
  "json_document example_env ''{ ... }'' = Document example_kwargs"
  "json_document example_env ''{'' = MalformedJSON"
  by (simp_all add: example_env_def)

lemma sample_files:
  "read_text example_env (Path ''/etc/sarc/config.json'') = Inr ''{ ... }''"
  "read_text example_env (Path ''/etc/sarc/broken.json'') = Inr ''{''"
  "read_text example_env (Path ''/etc/sarc/binary.json'') = Inl UnicodeDecodeError"
  "read_text example_env (Path ''/etc/sarc/config.pkl'') = Inr ''{''"
  by (simp_all add: read_text_def sample_bytes sample_texts)

lemma sample_loads:
  "load_file example_env (Path ''/etc/sarc/config.json'') = Inr (Document example_kwargs)"
  "load_file example_env (Path ''/etc/sarc/broken.json'') = Inr MalformedJSON"
  "load_file example_env (Path ''/etc/sarc/binary.json'') = Inl UnicodeDecodeError"
  "load_file example_env (Path ''/etc/sarc/config.pkl'') = Inl RuntimeError"
  by (simp_all add: load_file_def load_str_bytes_def sample_suffixes sample_bytes sample_texts
                    sample_documents)

text \<open>
  Claim C9. Every call of \<^verbatim>\<open>parse_config\<close>, failing or not, leaves \<^verbatim>\<open>_config_folder\<close> set to
  the parent directory of its argument. The assignment comes before the existence check and
  before validation, so the result of the call does not depend on what \<^verbatim>\<open>_config_folder\<close> held
  before, and no exit restores the previous value. In a successful load the validators of
  \<^verbatim>\<open>LDAPConfig\<close> have resolved the sentinel with the new directory.
\<close>

theorem parse_config_sets_folder:
  "config_folder (snd (parse_config env config_path st))
     = Some (path_str (parent env (to_path env config_path)))
   \<and> parse_config env config_path (st\<lparr>config_folder := previous\<rparr>) = parse_config env config_path st
   \<and> (\<forall>cfg st'. parse_config env config_path st = (Inr cfg, st') \<longrightarrow>
         (\<exists>content kw.
            read_text env (to_path env config_path) = Inr content
            \<and> json_document env content = Document kw
            \<and> ldap cfg = LDAPConfig_init (Some (path_str (parent env (to_path env config_path))))
                            (ldap kw)))"
proof -
  let ?st = "st\<lparr>config_folder := Some (path_str (parent env (to_path env config_path)))\<rparr>"
  have "config_folder (snd (Config_parse_file env (to_path env config_path) ?st))
          = Some (path_str (parent env (to_path env config_path)))"
    by (simp add: Config_parse_file_config_folder)
  then have 1: "config_folder (snd (parse_config env config_path st))
     = Some (path_str (parent env (to_path env config_path)))"
    by (auto simp: parse_config_def Let_def split: prod.splits sum.splits exn.splits)
  have 2: "parse_config env config_path (st\<lparr>config_folder := previous\<rparr>) = parse_config env config_path st"
    by (simp add: parse_config_def Let_def)
  have 3: "\<exists>content kw.
            read_text env (to_path env config_path) = Inr content
            \<and> json_document env content = Document kw
            \<and> ldap cfg = LDAPConfig_init (Some (path_str (parent env (to_path env config_path))))
                            (ldap kw)"
    if ok: "parse_config env config_path st = (Inr cfg, st')" for cfg st'
  proof -
    from parse_config_success [OF ok] obtain content kw where
      r: "read_text env (to_path env config_path) = Inr content"
      and j: "json_document env content = Document kw"
      and i: "Config_init env kw ?st = (Inr cfg, st')" by blast
    from Config_init_success [OF i] have "ldap cfg = LDAPConfig_init (config_folder ?st) (ldap kw)"
      by blast
    with r j show ?thesis by auto
  qed
  from 1 2 3 show ?thesis by blast
qed

theorem parse_config_sets_folder_witness:
  "parse_config example_env (Str ''/etc/sarc/config.json'') example_state
     = (Inr (example_loaded\<lparr>ldap := LDAPConfig_init (Some ''/etc/sarc'') (ldap example_kwargs)\<rparr>),
        example_loaded_state\<lparr>config_folder := Some ''/etc/sarc''\<rparr>)
   \<and> group_to_prof_json_path (LDAPConfig_init (Some ''/etc/sarc'') (ldap example_kwargs))
       = Some ''/etc/sarc/group_to_prof.json''
   \<and> (\<exists>content kw.
          read_text example_env (to_path example_env (Str ''/etc/sarc/config.json'')) = Inr content
          \<and> json_document example_env content = Document kw
          \<and> ldap (example_loaded\<lparr>ldap := LDAPConfig_init (Some ''/etc/sarc'') (ldap example_kwargs)\<rparr>)
              = LDAPConfig_init
                  (Some (path_str (parent example_env
                     (to_path example_env (Str ''/etc/sarc/config.json''))))) (ldap kw))"
proof -
  have p: "to_path example_env (Str ''/etc/sarc/config.json'') = Path ''/etc/sarc/config.json''"
    by (simp add: to_path_def example_env_def)
  have d: "path_str (parent example_env (Path ''/etc/sarc/config.json'')) = ''/etc/sarc''"
    by (simp add: example_env_def dirname_def)
  have e: "exists example_env (Path ''/etc/sarc/config.json'')"
    by (simp add: example_env_def)
  have r: "read_text example_env (Path ''/etc/sarc/config.json'') = Inr ''{ ... }''"
    by (rule sample_files)
  have j: "json_document example_env ''{ ... }'' = Document example_kwargs"
    by (rule sample_documents)
  have l: "load_file example_env (Path ''/etc/sarc/config.json'') = Inr (Document example_kwargs)"
    by (rule sample_loads)
  have i: "Config_init example_env example_kwargs (example_state\<lparr>config_folder := Some ''/etc/sarc''\<rparr>)
             = (Inr (example_loaded\<lparr>ldap := LDAPConfig_init (Some ''/etc/sarc'') (ldap example_kwargs)\<rparr>),
                example_loaded_state\<lparr>config_folder := Some ''/etc/sarc''\<rparr>)"
    by (simp add: Config_init_def validate_field_def field_entry_def recorded_def Config_absolute_path_def example_env_def example_kwargs_def
                example_cluster_kwargs_def example_state_def ClusterConfig_init_def
                ClusterConfig_timezone_def Config_complete_cluster_fields_def
                complete_cluster_def str_truthy_def path_truthy_def Let_def
                ClusterConfig_fields.extend_def ClusterConfig.fields_def
                example_loaded_def example_loaded_state_def example_mongo_def
                example_cluster_def AccountMatchingConfig_init_def)
  have a: "parse_config example_env (Str ''/etc/sarc/config.json'') example_state
     = (Inr (example_loaded\<lparr>ldap := LDAPConfig_init (Some ''/etc/sarc'') (ldap example_kwargs)\<rparr>),
        example_loaded_state\<lparr>config_folder := Some ''/etc/sarc''\<rparr>)"
    by (simp add: parse_config_def Config_parse_file_def Let_def p d e l i)
  have b: "group_to_prof_json_path (LDAPConfig_init (Some ''/etc/sarc'') (ldap example_kwargs))
       = Some ''/etc/sarc/group_to_prof.json''"
    by (simp add: LDAPConfig_init_def example_kwargs_def LDAPConfig_relative_group_to_prof_def
                  relative_filepath_def py_str_def)
  note t = parse_config_sets_folder [where env = example_env
              and config_path = "Str ''/etc/sarc/config.json''" and st = example_state]
  note c = t [THEN conjunct2, THEN conjunct2, rule_format, OF a]
  from a b c show ?thesis by (intro conjI)
qed




subsection \<open>The scoped accessor\<close>

text \<open>
  Entering a scope keeps the previous binding in the token. A scope whose body ends without
  an exception puts that binding back, whatever the body did to the variable; this also
  covers a scope nested in another one.
\<close>

lemma using_config_enter_success:
  assumes "using_config_enter env cfg st = (Inr (c, token), st1)"
  shows "token = config_var st \<and> config_var st1 = Bound c"
proof (cases cfg)
  case (ConfigArg c')
  with assms show ?thesis
    by (auto simp: using_config_enter_def config_var_set_def)
next
  case (PathArg p)
  obtain r st0 where r: "parse_config env p st = (r, st0)" by (cases "parse_config env p st")
  with parse_config_config_var [of env p st] have "config_var st0 = config_var st" by simp
  with assms PathArg r show ?thesis
    by (auto simp: using_config_enter_def config_var_set_def split: sum.splits)
qed

lemma using_config_enter_failure:
  assumes "using_config_enter env cfg st = (Inl e, st1)"
  shows "config_var st1 = config_var st"
proof (cases cfg)
  case (ConfigArg c')
  with assms show ?thesis
    by (auto simp: using_config_enter_def config_var_set_def)
next
  case (PathArg p)
  obtain r st0 where r: "parse_config env p st = (r, st0)" by (cases "parse_config env p st")
  with parse_config_config_var [of env p st] have "config_var st0 = config_var st" by simp
  with assms PathArg r show ?thesis
    by (auto simp: using_config_enter_def config_var_set_def split: sum.splits)
qed

lemma using_config_restores_without_exception:
  assumes "with_using_config env cfg body st = (result, st')"
    and "\<forall>e. result \<noteq> Raise e"
  shows "config_var st' = config_var st"
proof -
  obtain r st1 where en: "using_config_enter env cfg st = (r, st1)"
    by (cases "using_config_enter env cfg st")
  show ?thesis
  proof (cases r)
    case (Inl e)
    with assms en show ?thesis by (auto simp: with_using_config_def)
  next
    case (Inr ct)
    obtain c token where ct: "ct = (c, token)" by (cases ct)
    from en Inr ct have tok: "token = config_var st"
      using using_config_enter_success by blast
    obtain b st2 where bd: "body c st1 = (b, st2)" by (cases "body c st1")
    from assms en Inr ct bd tok show ?thesis
      by (cases b) (auto simp: with_using_config_def using_config_exit_def config_var_reset_def)
  qed
qed

lemma using_config_keeps_body_state_on_exception:
  assumes "using_config_enter env cfg st = (Inr (c, token), st1)"
    and "body c st1 = (Raise e, st2)"
  shows "with_using_config env cfg body st = (Raise e, st2)"
  using assms by (simp add: with_using_config_def)

lemma using_config_inner_exit_restores_outer:
  assumes "with_using_config env (ConfigArg B) inner (st\<lparr>config_var := Bound A\<rparr>) = (result, st')"
    and "\<forall>e. result \<noteq> Raise e"
  shows "config_var st' = Bound A"
  using using_config_restores_without_exception [OF assms] by simp

text \<open>
  Claim C1. The claim is that every exit from a \<^verbatim>\<open>using_config\<close> scope, an exception in the
  body included, restores the configuration that was current on entry. The code restores it
  when the body ends normally or by \<^verbatim>\<open>return\<close> (\<open>using_config_restores_without_exception\<close>).
  When the body raises, \<^verbatim>\<open>config_var.reset(token)\<close> is not reached: the scope's own
  configuration stays current after the \<^verbatim>\<open>with\<close> statement. The theorem evaluates that path,
  in general and from a state where no configuration was current.
\<close>

theorem using_config_exception_skips_reset:
  "with_using_config env (ConfigArg cfg) (\<lambda>c s. (Raise e, s)) st
     = (Raise e, st\<lparr>config_var := Bound cfg\<rparr>)
   \<and> config_var (snd (with_using_config example_env (ConfigArg example_config)
                         (\<lambda>c s. (Raise (Exception ''boom''), s)) example_state))
       \<noteq> config_var example_state"
proof -
  have enter: "using_config_enter env' (ConfigArg cfg') st0
                 = (Inr (cfg', config_var st0), st0\<lparr>config_var := Bound cfg'\<rparr>)"
    for env' cfg' st0
    by (simp add: using_config_enter_def config_var_set_def)
  have unset: "config_var example_state = Missing"
    by (simp add: example_state_def)
  show ?thesis
    by (simp add: with_using_config_def enter unset)
qed

subsection \<open>Lazy service handles\<close>

lemma cached_property_hit:
  "slot self = Some h \<Longrightarrow> cached_property slot store func self st = (Inr h, self, st)"
  by (simp add: cached_property_def)

lemma cached_property_miss:
  "slot self = None \<Longrightarrow>
   cached_property slot store func self st =
     (case func self st of
        (Inl e, st') \<Rightarrow> (Inl e, self, st')
      | (Inr val, st') \<Rightarrow> (Inr val, store val self, st'))"
  by (simp add: cached_property_def)

lemma cached_property_success_fills_slot:
  assumes "cached_property slot store func self st = (Inr h, self', st')"
    and "\<And>v s. slot (store v s) = Some v"
  shows "slot self' = Some h"
proof (cases "slot self")
  case None
  with assms show ?thesis
    by (auto simp: cached_property_def split: prod.splits sum.splits)
next
  case (Some v)
  with assms show ?thesis by (simp add: cached_property_def)
qed

lemma cached_property_failure_leaves_instance:
  assumes "cached_property slot store func self st = (Inl e, self', st')"
  shows "self' = self"
  using assms by (auto simp: cached_property_def split: option.splits prod.splits sum.splits)

lemma ssh_success_cached:
  "ssh env self st = (Inr h, self', st') \<Longrightarrow> ssh_cached self' = Some h"
  unfolding ssh_def by (erule cached_property_success_fills_slot) simp

lemma prometheus_success_cached:
  "prometheus env self st = (Inr h, self', st') \<Longrightarrow> prometheus_cached self' = Some h"
  unfolding prometheus_def by (erule cached_property_success_fills_slot) simp

lemma database_instance_success_cached:
  "database_instance env self st = (Inr h, self', st') \<Longrightarrow> database_instance_cached self' = Some h"
  unfolding database_instance_def by (erule cached_property_success_fills_slot) simp

lemma ssh_hit: "ssh_cached self = Some h \<Longrightarrow> ssh env self st = (Inr h, self, st)"
  unfolding ssh_def by (rule cached_property_hit)

lemma prometheus_hit:
  "prometheus_cached self = Some h \<Longrightarrow> prometheus env self st = (Inr h, self, st)"
  unfolding prometheus_def by (rule cached_property_hit)

lemma database_instance_hit:
  "database_instance_cached self = Some h \<Longrightarrow> database_instance env self st = (Inr h, self, st)"
  unfolding database_instance_def by (rule cached_property_hit)

text \<open>A first call, on an instance without the entry, builds a new handle object.\<close>

lemma new_handle_fresh:
  "new_handle x st = (h, st') \<Longrightarrow>
     h = next_ref st \<and> handles st' h = Some x \<and> next_ref st' = Suc (next_ref st)"
  by (auto simp: new_handle_def)

lemma ssh_first_call_constructs:
  assumes "ssh_cached self = None" and "ssh env self st = (Inr h, self', st')"
  shows "h = next_ref st \<and> (\<exists>f. handles st' h = Some (Connection (host self) f))
         \<and> self' = self\<lparr>ssh_cached := Some h\<rparr>"
  using assms
  by (auto simp: ssh_def cached_property_def ssh_func_def new_handle_def
           split: option.splits sum.splits prod.splits)

lemma prometheus_first_call_constructs:
  assumes "prometheus_cached self = None" and "prometheus env self st = (Inr h, self', st')"
  shows "h = next_ref st \<and> (\<exists>url hs. handles st' h = Some (PrometheusConnect url hs))
         \<and> self' = self\<lparr>prometheus_cached := Some h\<rparr>"
  using assms
  by (auto simp: prometheus_def cached_property_def prometheus_func_def new_handle_def
           split: option.splits sum.splits prod.splits)

lemma database_instance_first_call_constructs:
  assumes "database_instance_cached self = None"
    and "database_instance env self st = (Inr h, self', st')"
  shows "h = next_ref st
         \<and> handles st' h = Some (Database (connection_string self) (database_name self))
         \<and> self' = self\<lparr>database_instance_cached := Some h\<rparr>"
  using assms
  by (auto simp: database_instance_def cached_property_def database_instance_func_def
                 new_handle_def
           split: option.splits sum.splits prod.splits)

text \<open>The other accessor and an assignment to a field leave a cached entry alone.\<close>

lemma ssh_keeps_prometheus_cached:
  "ssh env self st = (r, self', st') \<Longrightarrow> prometheus_cached self' = prometheus_cached self"
  by (auto simp: ssh_def cached_property_def split: option.splits sum.splits prod.splits)

lemma prometheus_keeps_ssh_cached:
  "prometheus env self st = (r, self', st') \<Longrightarrow> ssh_cached self' = ssh_cached self"
  by (auto simp: prometheus_def cached_property_def split: option.splits sum.splits prod.splits)

lemma set_prometheus_url_keeps_cached:
  "ssh_cached (set_prometheus_url url self) = ssh_cached self
   \<and> prometheus_cached (set_prometheus_url url self) = prometheus_cached self"
  by (simp add: set_prometheus_url_def)

text \<open>
  Claim C5. For each of the three lazy accessors (\<^verbatim>\<open>ClusterConfig.ssh\<close>,
  \<^verbatim>\<open>ClusterConfig.prometheus\<close>, \<^verbatim>\<open>MongoConfig.database_instance\<close>): once a call on an instance
  has returned a handle, every later call on that instance, in whatever state, returns the
  same object, leaves the instance as it is and constructs nothing (the state is unchanged).
\<close>

theorem lazy_handles_cached:
  "(ssh env self st = (Inr h, self', st') \<longrightarrow>
      (\<forall>st''. ssh env self' st'' = (Inr h, self', st'')))
   \<and> (prometheus env self st = (Inr h, self', st') \<longrightarrow>
      (\<forall>st''. prometheus env self' st'' = (Inr h, self', st'')))
   \<and> (database_instance env m st = (Inr h, m', st') \<longrightarrow>
      (\<forall>st''. database_instance env m' st'' = (Inr h, m', st'')))"
proof (intro conjI impI allI)
  fix st''
  assume "ssh env self st = (Inr h, self', st')"
  then have "ssh_cached self' = Some h" by (rule ssh_success_cached)
  then show "ssh env self' st'' = (Inr h, self', st'')" by (rule ssh_hit)
next
  fix st''
  assume "prometheus env self st = (Inr h, self', st')"
  then have "prometheus_cached self' = Some h" by (rule prometheus_success_cached)
  then show "prometheus env self' st'' = (Inr h, self', st'')" by (rule prometheus_hit)
next
  fix st''
  assume "database_instance env m st = (Inr h, m', st')"
  then have "database_instance_cached m' = Some h" by (rule database_instance_success_cached)
  then show "database_instance env m' st'' = (Inr h, m', st'')" by (rule database_instance_hit)
qed

theorem lazy_handles_cached_witness:
  "ssh example_env example_cluster example_state
     = (Inr 0, example_cluster\<lparr>ssh_cached := Some 0\<rparr>,
        example_state\<lparr>handles := [0 \<mapsto> Connection ''login.mila.quebec'' None], next_ref := 1\<rparr>)
   \<and> (\<forall>st''. ssh example_env (example_cluster\<lparr>ssh_cached := Some 0\<rparr>) st''
              = (Inr 0, example_cluster\<lparr>ssh_cached := Some 0\<rparr>, st''))
   \<and> prometheus example_env (set_prometheus_url (Some ''http://prometheus:9090'') example_cluster)
        example_state
     = (Inr 0, set_prometheus_url (Some ''http://prometheus:9090'') example_cluster
                 \<lparr>prometheus_cached := Some 0\<rparr>,
        example_state\<lparr>handles := [0 \<mapsto> PrometheusConnect ''http://prometheus:9090'' []],
                      next_ref := 1\<rparr>)
   \<and> (\<forall>st''. prometheus example_env
                (set_prometheus_url (Some ''http://prometheus:9090'') example_cluster
                   \<lparr>prometheus_cached := Some 0\<rparr>) st''
              = (Inr 0, set_prometheus_url (Some ''http://prometheus:9090'') example_cluster
                          \<lparr>prometheus_cached := Some 0\<rparr>, st''))
   \<and> database_instance example_env example_mongo example_state
     = (Inr 0, example_mongo\<lparr>database_instance_cached := Some 0\<rparr>,
        example_state\<lparr>handles := [0 \<mapsto> Database ''localhost:27017'' ''sarc''], next_ref := 1\<rparr>)
   \<and> (\<forall>st''. database_instance example_env (example_mongo\<lparr>database_instance_cached := Some 0\<rparr>) st''
              = (Inr 0, example_mongo\<lparr>database_instance_cached := Some 0\<rparr>, st''))"
proof -
  have a: "ssh example_env example_cluster example_state
     = (Inr 0, example_cluster\<lparr>ssh_cached := Some 0\<rparr>,
        example_state\<lparr>handles := [0 \<mapsto> Connection ''login.mila.quebec'' None], next_ref := 1\<rparr>)"
    by (simp add: ssh_def cached_property_def ssh_func_def new_handle_def example_cluster_def
                  example_cluster_kwargs_def example_state_def ClusterConfig_fields.extend_def
                  ClusterConfig.fields_def example_env_def)
  have b: "prometheus example_env (set_prometheus_url (Some ''http://prometheus:9090'') example_cluster)
        example_state
     = (Inr 0, set_prometheus_url (Some ''http://prometheus:9090'') example_cluster
                 \<lparr>prometheus_cached := Some 0\<rparr>,
        example_state\<lparr>handles := [0 \<mapsto> PrometheusConnect ''http://prometheus:9090'' []],
                      next_ref := 1\<rparr>)"
    by (simp add: prometheus_def cached_property_def prometheus_func_def new_handle_def
                  example_cluster_def set_prometheus_url_def
                  example_cluster_kwargs_def example_state_def ClusterConfig_fields.extend_def
                  ClusterConfig.fields_def)
  have c: "database_instance example_env example_mongo example_state
     = (Inr 0, example_mongo\<lparr>database_instance_cached := Some 0\<rparr>,
        example_state\<lparr>handles := [0 \<mapsto> Database ''localhost:27017'' ''sarc''], next_ref := 1\<rparr>)"
    by (simp add: database_instance_def cached_property_def database_instance_func_def
                  new_handle_def example_mongo_def MongoConfig_init_def example_kwargs_def
                  example_state_def MongoConfig_fields.extend_def MongoConfig.fields_def
                  example_env_def)
  note t1 = lazy_handles_cached [where env = example_env and self = example_cluster
        and st = example_state and h = 0
        and self' = "example_cluster\<lparr>ssh_cached := Some 0\<rparr>"
        and st' = "example_state\<lparr>handles := [0 \<mapsto> Connection ''login.mila.quebec'' None],
                                 next_ref := 1\<rparr>"]
  note t2 = lazy_handles_cached [where env = example_env
        and self = "set_prometheus_url (Some ''http://prometheus:9090'') example_cluster"
        and st = example_state and h = 0
        and self' = "set_prometheus_url (Some ''http://prometheus:9090'') example_cluster
                       \<lparr>prometheus_cached := Some 0\<rparr>"
        and st' = "example_state\<lparr>handles := [0 \<mapsto> PrometheusConnect ''http://prometheus:9090'' []],
                                 next_ref := 1\<rparr>"]
  note t3 = lazy_handles_cached [where m = example_mongo and st = example_state and h = 0
        and m' = "example_mongo\<lparr>database_instance_cached := Some 0\<rparr>"
        and st' = "example_state\<lparr>handles := [0 \<mapsto> Database ''localhost:27017'' ''sarc''],
                                 next_ref := 1\<rparr>"]
  have a': "\<forall>st''. ssh example_env (example_cluster\<lparr>ssh_cached := Some 0\<rparr>) st''
              = (Inr 0, example_cluster\<lparr>ssh_cached := Some 0\<rparr>, st'')"
    by (rule mp [OF conjunct1 [OF t1] a])
  have b': "\<forall>st''. prometheus example_env
                (set_prometheus_url (Some ''http://prometheus:9090'') example_cluster
                   \<lparr>prometheus_cached := Some 0\<rparr>) st''
              = (Inr 0, set_prometheus_url (Some ''http://prometheus:9090'') example_cluster
                          \<lparr>prometheus_cached := Some 0\<rparr>, st'')"
    by (rule mp [OF conjunct1 [OF conjunct2 [OF t2]] b])
  have c': "\<forall>st''. database_instance example_env (example_mongo\<lparr>database_instance_cached := Some 0\<rparr>) st''
              = (Inr 0, example_mongo\<lparr>database_instance_cached := Some 0\<rparr>, st'')"
    by (rule mp [OF conjunct2 [OF conjunct2 [OF t3]] c])
  show ?thesis
    by (intro conjI) (rule a a' b b' c c')+
qed

text \<open>
  The metrics accessor on a cluster without URL does not always raise \<^verbatim>\<open>ConfigurationError\<close>:
  the headers file is read before the URL is looked at, so with a headers file that cannot
  be read the exception of the reader is what the caller gets.
\<close>

theorem prometheus_headers_read_first_counterexample:
  "prometheus_url (example_cluster\<lparr>prometheus_headers_file := Some ''/etc/sarc/missing.json''\<rparr>) = None
   \<and> fst (prometheus example_env
            (example_cluster\<lparr>prometheus_headers_file := Some ''/etc/sarc/missing.json''\<rparr>)
            example_state) = Inl OSError"
  by (simp add: prometheus_def cached_property_def prometheus_func_def example_cluster_def
                example_cluster_kwargs_def example_env_def ClusterConfig_fields.extend_def
                ClusterConfig.fields_def)

text \<open>
  Claim C4, amended. For a \<^verbatim>\<open>ClusterConfig\<close> that has no metrics URL, no cached metrics handle
  and either no headers file or one that can be read, the metrics accessor raises
  \<^verbatim>\<open>ConfigurationError\<close> with the cluster's name in the message, and leaves the instance and
  the state as they were: nothing is cached. After the URL is assigned on that instance a
  later call, in whatever state, constructs a new handle from the URL and the headers,
  caches it and returns it.
\<close>

theorem prometheus_without_url:
  assumes "prometheus_url self = None"
    and "prometheus_cached self = None"
    and "prometheus_headers_file self = None
         \<or> (\<exists>f hs. prometheus_headers_file self = Some f \<and> read_headers env f = Inr hs)"
  shows "prometheus env self st = (Inl (ConfigurationError (no_url_message self)), self, st)
         \<and> str_contains (py_str (name self)) (no_url_message self)
         \<and> (\<exists>hs. prometheus env (set_prometheus_url (Some url) self) later
                 = (Inr (next_ref later),
                    set_prometheus_url (Some url) self\<lparr>prometheus_cached := Some (next_ref later)\<rparr>,
                    later\<lparr>handles := (handles later)(next_ref later \<mapsto> PrometheusConnect url hs),
                        next_ref := Suc (next_ref later)\<rparr>))"
proof -
  from assms(3) obtain hs where
    hs: "(case prometheus_headers_file self of Some f \<Rightarrow> read_headers env f | None \<Rightarrow> Inr [])
           = Inr hs"
    by (auto split: option.splits)
  have 1: "prometheus env self st = (Inl (ConfigurationError (no_url_message self)), self, st)"
    using assms(1,2) hs by (simp add: prometheus_def cached_property_def prometheus_func_def)
  have "no_url_message self
          = ''No prometheus URL provided for cluster '' @ quoted (py_str (name self)) @ []"
    by (simp add: no_url_message_def)
  then have 2: "str_contains (py_str (name self)) (no_url_message self)"
    by (simp only: quoted_contains)
  have 3: "prometheus env (set_prometheus_url (Some url) self) later
                 = (Inr (next_ref later),
                    set_prometheus_url (Some url) self\<lparr>prometheus_cached := Some (next_ref later)\<rparr>,
                    later\<lparr>handles := (handles later)(next_ref later \<mapsto> PrometheusConnect url hs),
                        next_ref := Suc (next_ref later)\<rparr>)"
    using assms(2) hs
    by (simp add: prometheus_def cached_property_def prometheus_func_def set_prometheus_url_def
                  new_handle_def)
  from 1 2 3 show ?thesis by blast
qed

theorem prometheus_without_url_witness:
  "prometheus_url example_cluster = None
   \<and> prometheus_cached example_cluster = None
   \<and> prometheus_headers_file example_cluster = None
   \<and> prometheus example_env example_cluster example_state
       = (Inl (ConfigurationError (''No prometheus URL provided for cluster '' @ quoted ''mila'')),
          example_cluster, example_state)
   \<and> (\<exists>hs. prometheus example_env
              (set_prometheus_url (Some ''http://prometheus:9090'') example_cluster) example_state
            = (Inr (next_ref example_state),
               set_prometheus_url (Some ''http://prometheus:9090'') example_cluster
                  \<lparr>prometheus_cached := Some (next_ref example_state)\<rparr>,
               example_state\<lparr>handles := (handles example_state)
                                (next_ref example_state \<mapsto> PrometheusConnect ''http://prometheus:9090'' hs),
                             next_ref := Suc (next_ref example_state)\<rparr>))"
proof -
  have a: "prometheus_url example_cluster = None"
    by (simp add: example_cluster_def example_cluster_kwargs_def ClusterConfig_fields.extend_def
                  ClusterConfig.fields_def)
  have b: "prometheus_cached example_cluster = None"
    by (simp add: example_cluster_def example_cluster_kwargs_def ClusterConfig_fields.extend_def
                  ClusterConfig.fields_def)
  have c: "prometheus_headers_file example_cluster = None"
    by (simp add: example_cluster_def example_cluster_kwargs_def ClusterConfig_fields.extend_def
                  ClusterConfig.fields_def)
  have c': "prometheus_headers_file example_cluster = None
         \<or> (\<exists>f hs. prometheus_headers_file example_cluster = Some f
                   \<and> read_headers example_env f = Inr hs)"
    using c by simp
  have m: "no_url_message example_cluster = (''No prometheus URL provided for cluster '' @ quoted ''mila'')"
    by (simp add: no_url_message_def py_str_def example_cluster_def
                  example_cluster_kwargs_def ClusterConfig_fields.extend_def
                  ClusterConfig.fields_def)
  note t = prometheus_without_url [OF a b c', where st = example_state and later = example_state
              and url = "''http://prometheus:9090''"]
  from t have t1: "prometheus example_env example_cluster example_state
       = (Inl (ConfigurationError (no_url_message example_cluster)), example_cluster, example_state)"
    by (rule conjunct1)
  from t have t3: "\<exists>hs. prometheus example_env
              (set_prometheus_url (Some ''http://prometheus:9090'') example_cluster) example_state
            = (Inr (next_ref example_state),
               set_prometheus_url (Some ''http://prometheus:9090'') example_cluster
                  \<lparr>prometheus_cached := Some (next_ref example_state)\<rparr>,
               example_state\<lparr>handles := (handles example_state)
                                (next_ref example_state \<mapsto> PrometheusConnect ''http://prometheus:9090'' hs),
                             next_ref := Suc (next_ref example_state)\<rparr>)"
    by (rule conjunct2 [OF conjunct2])
  from t1 m have t1': "prometheus example_env example_cluster example_state
       = (Inl (ConfigurationError (''No prometheus URL provided for cluster '' @ quoted ''mila'')),
          example_cluster, example_state)"
    by (simp only:)
  show ?thesis
    by (intro conjI) (rule a b c t1' t3)+
qed

subsection \<open>Cross-field defaulting\<close>

text \<open>What the loop body does to the two fields, and what the loop does to the heap.\<close>

lemma complete_cluster_name:
  "name (complete_cluster key values c) = (if str_truthy (name c) then name c else Some key)"
  by (simp add: complete_cluster_def Let_def path_truthy_def split: option.splits)

lemma complete_cluster_sshconfig:
  "ClusterConfig_fields.sshconfig (complete_cluster key values c) =
     (case values ''sshconfig'' of
        None \<Rightarrow> ClusterConfig_fields.sshconfig c
      | Some v \<Rightarrow> if ClusterConfig_fields.sshconfig c = None then v
                  else ClusterConfig_fields.sshconfig c)"
  by (auto simp: complete_cluster_def Let_def path_truthy_def split: option.splits)

lemma complete_cluster_empty_name_as_unset:
  "name c = Some '''' \<Longrightarrow>
     complete_cluster key values c = complete_cluster key values (c\<lparr>name := None\<rparr>)"
  by (simp add: complete_cluster_def Let_def str_truthy_def)

lemma complete_items_other:
  "r \<notin> snd ` set items \<Longrightarrow> complete_items items values h r = h r"
proof (induction items arbitrary: h)
  case Nil
  then show ?case by simp
next
  case (Cons kr items)
  obtain key r' where kr: "kr = (key, r')" by (cases kr)
  with Cons.prems have ne: "r \<noteq> r'" and rest: "r \<notin> snd ` set items" by auto
  from Cons.IH [OF rest] kr ne show ?case by (simp split: option.splits)
qed

lemma complete_items_at:
  "distinct (map snd items) \<Longrightarrow> (key, r) \<in> set items \<Longrightarrow>
     complete_items items values h r = map_option (complete_cluster key values) (h r)"
proof (induction items arbitrary: h)
  case Nil
  then show ?case by simp
next
  case (Cons kr items)
  obtain key' r' where kr: "kr = (key', r')" by (cases kr)
  show ?case
  proof (cases "(key, r) = (key', r')")
    case True
    with Cons.prems kr have "r \<notin> snd ` set items" by auto
    from complete_items_other [OF this] kr True show ?thesis
      by (simp split: option.splits)
  next
    case False
    with Cons.prems kr have mem: "(key, r) \<in> set items" and d: "distinct (map snd items)"
      by auto
    from mem have "r \<in> snd ` set items" by force
    with Cons.prems kr have ne: "r \<noteq> r'" by auto
    from Cons.IH [OF d mem] kr ne show ?thesis by (simp split: option.splits)
  qed
qed

text \<open>
  Claim C10. The defaulting treats a falsy name as unset: a cluster object whose name is the
  empty string gets its key as name, and ends exactly as it would have with no name at all.
  The change is made in place: the validator returns the dictionary it was given, and the
  object behind the reference in that dictionary is the one that has changed.
\<close>

theorem empty_name_overwritten_in_place:
  assumes "(key, r) \<in> set value" and "distinct (map snd value)"
    and "heap st r = Some cluster" and "name cluster = Some ''''"
  shows "fst (Config_complete_cluster_fields value values st) = value
         \<and> heap (snd (Config_complete_cluster_fields value values st)) r
             = Some (complete_cluster key values cluster)
         \<and> name (complete_cluster key values cluster) = Some key
         \<and> complete_cluster key values cluster
             = complete_cluster key values (cluster\<lparr>name := None\<rparr>)"
proof -
  have "heap (snd (Config_complete_cluster_fields value values st)) r
          = map_option (complete_cluster key values) (heap st r)"
    using complete_items_at [OF assms(2,1)] by (simp add: Config_complete_cluster_fields_def)
  with assms(3) have 1: "heap (snd (Config_complete_cluster_fields value values st)) r
             = Some (complete_cluster key values cluster)" by simp
  have 2: "name (complete_cluster key values cluster) = Some key"
    using assms(4) by (simp add: complete_cluster_name str_truthy_def)
  have 3: "fst (Config_complete_cluster_fields value values st) = value"
    by (simp add: Config_complete_cluster_fields_def)
  from 1 2 3 complete_cluster_empty_name_as_unset [OF assms(4)] show ?thesis by blast
qed

theorem empty_name_overwritten_in_place_witness:
  "(''mila'', 0) \<in> set [(''mila'', 0::nat)] \<and> distinct (map snd [(''mila'', 0::nat)])
   \<and> heap (example_state\<lparr>heap := [0 \<mapsto> example_cluster\<lparr>name := Some ''''\<rparr>]\<rparr>) 0
       = Some (example_cluster\<lparr>name := Some ''''\<rparr>)
   \<and> name (example_cluster\<lparr>name := Some ''''\<rparr>) = Some ''''
   \<and> fst (Config_complete_cluster_fields [(''mila'', 0)] Map.empty
            (example_state\<lparr>heap := [0 \<mapsto> example_cluster\<lparr>name := Some ''''\<rparr>]\<rparr>))
       = [(''mila'', 0)]
   \<and> heap (snd (Config_complete_cluster_fields [(''mila'', 0)] Map.empty
                  (example_state\<lparr>heap := [0 \<mapsto> example_cluster\<lparr>name := Some ''''\<rparr>]\<rparr>))) 0
       = Some (example_cluster\<lparr>name := Some ''mila''\<rparr>)"
proof -
  let ?c = "example_cluster\<lparr>name := Some ''''\<rparr>"
  let ?st = "example_state\<lparr>heap := [0 \<mapsto> ?c]\<rparr>"
  have a: "(''mila'', 0) \<in> set [(''mila'', 0::nat)]" by simp
  have b: "distinct (map snd [(''mila'', 0::nat)])" by simp
  have c: "heap ?st 0 = Some ?c" by simp
  have d: "name ?c = Some ''''" by simp
  have e: "complete_cluster ''mila'' Map.empty ?c = example_cluster\<lparr>name := Some ''mila''\<rparr>"
    by (simp add: complete_cluster_def str_truthy_def)
  note t = empty_name_overwritten_in_place [OF a b c d, of Map.empty]
  from t have t1: "fst (Config_complete_cluster_fields [(''mila'', 0)] Map.empty ?st) = [(''mila'', 0)]"
    by (rule conjunct1)
  from t have "heap (snd (Config_complete_cluster_fields [(''mila'', 0)] Map.empty ?st)) 0
       = Some (complete_cluster ''mila'' Map.empty ?c)"
    by (rule conjunct1 [OF conjunct2])
  with e have t2: "heap (snd (Config_complete_cluster_fields [(''mila'', 0)] Map.empty ?st)) 0
       = Some (example_cluster\<lparr>name := Some ''mila''\<rparr>)" by (simp only:)
  show ?thesis
    by (intro conjI) (rule a b c d t1 t2)+
qed

text \<open>Construction of the root object, step by step.\<close>

lemma ClusterConfig_init_fields:
  assumes "ClusterConfig_init env kw = Inr c"
  shows "name c = name kw \<and> ClusterConfig_fields.sshconfig c = ClusterConfig_fields.sshconfig kw
         \<and> ssh_cached c = None \<and> prometheus_cached c = None
         \<and> (\<exists>tz. ClusterConfig_timezone env (timezone kw) = Inr tz
                 \<and> ClusterConfig_dict c = kw\<lparr>timezone := tz\<rparr>)"
  using assms
  by (auto simp: ClusterConfig_init_def ClusterConfig_fields.extend_def ClusterConfig.fields_def
                 ClusterConfig_dict_def ClusterConfig_fields.truncate_def
           split: sum.splits)

lemma validate_clusters_entries:
  "validate_clusters env kws = Inr cs \<Longrightarrow>
     list_all2 (\<lambda>kkw kc. fst kc = fst kkw \<and> ClusterConfig_init env (snd kkw) = Inr (snd kc)) kws cs"
proof (induction kws arbitrary: cs)
  case Nil
  then show ?case by simp
next
  case (Cons kkw kws)
  obtain key kw where k: "kkw = (key, kw)" by (cases kkw)
  from Cons.prems k obtain c cs' where c: "ClusterConfig_init env kw = Inr c"
    and cs': "validate_clusters env kws = Inr cs'" and cs: "cs = (key, c) # cs'"
    by (auto split: sum.splits if_splits)
  from Cons.IH [OF cs'] c cs k show ?case by simp
qed

lemma new_clusters_allocates:
  "new_clusters cs st = (value, st') \<Longrightarrow>
     map fst value = map fst cs
     \<and> map snd value = [next_ref st ..< next_ref st + length cs]
     \<and> next_ref st' = next_ref st + length cs
     \<and> (\<forall>r. r < next_ref st \<longrightarrow> heap st' r = heap st r)
     \<and> list_all2 (\<lambda>kr kc. heap st' (snd kr) = Some (snd kc)) value cs"
proof (induction cs arbitrary: st "value" st')
  case Nil
  then show ?case by simp
next
  case (Cons kc cs)
  obtain key c where kc: "kc = (key, c)" by (cases kc)
  let ?st1 = "st\<lparr>heap := (heap st)(next_ref st \<mapsto> c), next_ref := Suc (next_ref st)\<rparr>"
  obtain v1 st1 where r: "new_clusters cs ?st1 = (v1, st1)" by (cases "new_clusters cs ?st1")
  with Cons.prems kc have v: "value = (key, next_ref st) # v1" and st': "st' = st1"
    by (simp_all add: Let_def)
  note ih = Cons.IH [OF r]
  from ih have frame: "\<forall>r. r < Suc (next_ref st) \<longrightarrow> heap st1 r = heap ?st1 r" by simp
  then have here: "heap st1 (next_ref st) = Some c" by simp
  from frame have below: "\<forall>r. r < next_ref st \<longrightarrow> heap st1 r = heap st r" by simp
  have upt: "[next_ref st ..< next_ref st + length (kc # cs)]
               = next_ref st # [Suc (next_ref st) ..< Suc (next_ref st) + length cs]"
    by (simp add: upt_rec)
  from ih v st' kc here below upt show ?case by simp
qed

text \<open>
  An entry that supplies the empty string as its name does not keep it.
\<close>

theorem explicit_empty_name_counterexample:
  "name (snd (hd (clusters example_kwargs_empty_name))) = Some ''''
   \<and> \<not> isl (fst (Config_init example_env example_kwargs_empty_name example_state))
   \<and> clusters (projr (fst (Config_init example_env example_kwargs_empty_name example_state)))
       = [(''mila'', 0)]
   \<and> map_option name (heap (snd (Config_init example_env example_kwargs_empty_name example_state)) 0)
       = Some (Some ''mila'')"
  by (simp add: Config_init_def validate_field_def field_entry_def recorded_def Config_absolute_path_def example_env_def example_kwargs_def
                example_kwargs_empty_name_def
                example_cluster_kwargs_def example_state_def ClusterConfig_init_def
                ClusterConfig_timezone_def Config_complete_cluster_fields_def
                complete_cluster_def str_truthy_def path_truthy_def Let_def
                ClusterConfig_fields.extend_def ClusterConfig.fields_def)

text \<open>
  Claim C2, amended. In every root \<^verbatim>\<open>Config\<close> constructed from a clusters mapping, the
  entries keep their keys and order, and for each entry: its name is the supplied one when
  that is a non-empty string, and its key otherwise (not supplied, or supplied empty); its
  \<^verbatim>\<open>sshconfig\<close> is the supplied one when there is one, and the root's validated \<^verbatim>\<open>sshconfig\<close>
  (possibly absent) otherwise.
\<close>

theorem cluster_fields_completed:
  assumes "Config_init env kw st = (Inr cfg, st')"
  shows "map fst (clusters cfg) = map fst (clusters kw)
         \<and> (\<forall>i < length (clusters kw).
               \<exists>c. heap st' (snd (clusters cfg ! i)) = Some c
                 \<and> name c = (if str_truthy (name (snd (clusters kw ! i)))
                             then name (snd (clusters kw ! i))
                             else Some (fst (clusters kw ! i)))
                 \<and> ClusterConfig_fields.sshconfig c
                     = (if ClusterConfig_fields.sshconfig (snd (clusters kw ! i)) = None
                        then Config_rec.sshconfig cfg
                        else ClusterConfig_fields.sshconfig (snd (clusters kw ! i))))"
proof -
  let ?vals = "[''sshconfig'' \<mapsto> Config_rec.sshconfig cfg, ''cache'' \<mapsto> cache cfg]"
  from Config_init_success [OF assms] obtain cs "value" st1 where
    cs: "validate_clusters env (clusters kw) = Inr cs"
    and nc: "new_clusters cs st = (value, st1)"
    and cl: "clusters cfg = value"
    and st': "st' = st1\<lparr>heap := complete_items value ?vals (heap st1)\<rparr>"
    by blast
  note al = new_clusters_allocates [OF nc]
  note vc = validate_clusters_entries [OF cs]
  from al have refs: "map snd value = [next_ref st ..< next_ref st + length cs]" by simp
  then have dist: "distinct (map snd value)" by simp
  from vc have len1: "length cs = length (clusters kw)" by (simp add: list_all2_lengthD)
  from al have len2: "length value = length cs"
    by (metis length_map)
  from vc have keys1: "map fst cs = map fst (clusters kw)"
    by (induction rule: list_all2_induct) auto
  from al keys1 cl have keys: "map fst (clusters cfg) = map fst (clusters kw)" by simp
  have each: "\<exists>c. heap st' (snd (clusters cfg ! i)) = Some c
                 \<and> name c = (if str_truthy (name (snd (clusters kw ! i)))
                             then name (snd (clusters kw ! i))
                             else Some (fst (clusters kw ! i)))
                 \<and> ClusterConfig_fields.sshconfig c
                     = (if ClusterConfig_fields.sshconfig (snd (clusters kw ! i)) = None
                        then Config_rec.sshconfig cfg
                        else ClusterConfig_fields.sshconfig (snd (clusters kw ! i)))"
    if i: "i < length (clusters kw)" for i
  proof -
    from i len1 len2 have iv: "i < length value" and ic: "i < length cs" by simp_all
    let ?key = "fst (value ! i)" and ?r = "snd (value ! i)" and ?c = "snd (cs ! i)"
    from iv have mem: "(?key, ?r) \<in> set value" by simp
    from al iv have at: "heap st1 ?r = Some ?c"
      by (simp add: list_all2_conv_all_nth)
    from complete_items_at [OF dist mem, of ?vals "heap st1"] at st'
    have h: "heap st' ?r = Some (complete_cluster ?key ?vals ?c)" by simp
    from vc i have init: "ClusterConfig_init env (snd (clusters kw ! i)) = Inr ?c"
      and k1: "fst (cs ! i) = fst (clusters kw ! i)"
      by (simp_all add: list_all2_conv_all_nth)
    from al have "map fst value ! i = map fst cs ! i" by simp
    with iv ic k1 have key: "?key = fst (clusters kw ! i)" by simp
    from ClusterConfig_init_fields [OF init]
    have n: "name ?c = name (snd (clusters kw ! i))"
      and s: "ClusterConfig_fields.sshconfig ?c = ClusterConfig_fields.sshconfig (snd (clusters kw ! i))"
      by simp_all
    from h cl key n s show ?thesis
      by (simp add: complete_cluster_name complete_cluster_sshconfig)
  qed
  from keys each show ?thesis by blast
qed

lemma example_loaded_eq:
  "Config_init example_env example_kwargs example_state = (Inr example_loaded, example_loaded_state)"
  by (simp add: Config_init_def validate_field_def field_entry_def recorded_def Config_absolute_path_def example_env_def example_kwargs_def
                example_cluster_kwargs_def example_state_def ClusterConfig_init_def
                ClusterConfig_timezone_def Config_complete_cluster_fields_def
                complete_cluster_def str_truthy_def path_truthy_def Let_def
                ClusterConfig_fields.extend_def ClusterConfig.fields_def
                example_loaded_def example_loaded_state_def example_mongo_def
                example_cluster_def AccountMatchingConfig_init_def)

theorem cluster_fields_completed_witness:
  "Config_init example_env example_kwargs example_state = (Inr example_loaded, example_loaded_state)
   \<and> map fst (clusters example_loaded) = map fst (clusters example_kwargs)
   \<and> (\<exists>c. heap example_loaded_state 0 = Some c
          \<and> name c = Some ''mila''
          \<and> ClusterConfig_fields.sshconfig c = Some (Path ''/home/sarc/.ssh/config''))"
proof -
  note t = cluster_fields_completed [OF example_loaded_eq]
  from t have 1: "map fst (clusters example_loaded) = map fst (clusters example_kwargs)"
    by (rule conjunct1)
  from t have "\<forall>i < length (clusters example_kwargs).
               \<exists>c. heap example_loaded_state (snd (clusters example_loaded ! i)) = Some c
                 \<and> name c = (if str_truthy (name (snd (clusters example_kwargs ! i)))
                             then name (snd (clusters example_kwargs ! i))
                             else Some (fst (clusters example_kwargs ! i)))
                 \<and> ClusterConfig_fields.sshconfig c
                     = (if ClusterConfig_fields.sshconfig (snd (clusters example_kwargs ! i)) = None
                        then Config_rec.sshconfig example_loaded
                        else ClusterConfig_fields.sshconfig (snd (clusters example_kwargs ! i)))"
    by (rule conjunct2)
  then have 2: "\<exists>c. heap example_loaded_state 0 = Some c
          \<and> name c = Some ''mila''
          \<and> ClusterConfig_fields.sshconfig c = Some (Path ''/home/sarc/.ssh/config'')"
    by (simp add: example_kwargs_def example_loaded_def example_cluster_kwargs_def str_truthy_def)
  from example_loaded_eq 1 2 show ?thesis by (intro conjI)
qed

subsection \<open>The strict record base\<close>





































end
